theory Spec2Isabelle
  imports Main
begin

section \<open>JavaScript values and the object heap\<close>

text \<open>
  The reducers and the registry are dynamically typed JavaScript. Values are the
  primitives, references into a heap of objects, and the built-in objects and functions
  of the host, which the code can only reach through \<open>Object.prototype\<close>. Numbers are
  modelled as integers plus \<open>NaN\<close>; fractional and very large doubles are not covered.
\<close>

type_synonym addr = nat

datatype jsval =
    VUndefined
  | VNull
  | VBool bool
  | VNum int
  | VNaN
  | VStr string
  | VRef addr
  | VBuiltin string

text \<open>The own properties of a plain object, keyed by property name.\<close>

type_synonym props = "string \<rightharpoonup> jsval"

datatype settled = Resolved jsval | Rejected jsval

datatype obj = Obj props | Arr "jsval list" | Promise settled

type_synonym heap = "obj list"

text \<open>
  What the model reports instead of a value: the exceptions the code can raise, and
  \<open>Unmodelled\<close> for the JavaScript behaviour the model does not cover (replacing a
  prototype through \<open>__proto__\<close>, property lookup on primitives and promises, the
  conversion of an object to a property name).
\<close>

datatype error = TypeError | RangeError | SyntaxError | Unmodelled

definition alloc :: "heap \<Rightarrow> obj \<Rightarrow> jsval \<times> heap" where
  "alloc h ob = (VRef (length h), h @ [ob])"

definition deref :: "heap \<Rightarrow> addr \<Rightarrow> obj option" where
  "deref h a = (if a < length h then Some (h ! a) else None)"

text \<open>JavaScript truthiness (\<open>if (x)\<close>, \<open>!x\<close>, \<open>x || y\<close>).\<close>

fun truthy :: "jsval \<Rightarrow> bool" where
  "truthy VUndefined = False"
| "truthy VNull = False"
| "truthy (VBool b) = b"
| "truthy (VNum n) = (n \<noteq> 0)"
| "truthy VNaN = False"
| "truthy (VStr s) = (s \<noteq> [])"
| "truthy (VRef a) = True"
| "truthy (VBuiltin b) = True"

text \<open>Strict equality \<open>===\<close>: by value on primitives, by identity on objects, and
  \<open>NaN\<close> differs from itself.\<close>

definition strict_eq :: "jsval \<Rightarrow> jsval \<Rightarrow> bool" where
  "strict_eq x y = (x = y \<and> x \<noteq> VNaN)"

text \<open>
  Every plain object inherits the members of \<open>Object.prototype\<close>. A property read
  \<open>o[k]\<close> and the operator \<open>k in o\<close> see them when \<open>o\<close> has no own property \<open>k\<close>.
\<close>

definition Object_prototype :: "(string \<times> jsval) list" where
  "Object_prototype =
    [(''constructor'', VBuiltin ''Object''),
     (''__defineGetter__'', VBuiltin ''Object.prototype.__defineGetter__''),
     (''__defineSetter__'', VBuiltin ''Object.prototype.__defineSetter__''),
     (''hasOwnProperty'', VBuiltin ''Object.prototype.hasOwnProperty''),
     (''__lookupGetter__'', VBuiltin ''Object.prototype.__lookupGetter__''),
     (''__lookupSetter__'', VBuiltin ''Object.prototype.__lookupSetter__''),
     (''isPrototypeOf'', VBuiltin ''Object.prototype.isPrototypeOf''),
     (''propertyIsEnumerable'', VBuiltin ''Object.prototype.propertyIsEnumerable''),
     (''toString'', VBuiltin ''Object.prototype.toString''),
     (''valueOf'', VBuiltin ''Object.prototype.valueOf''),
     (''__proto__'', VBuiltin ''Object.prototype''),
     (''toLocaleString'', VBuiltin ''Object.prototype.toLocaleString'')]"

definition inherited :: "string \<Rightarrow> jsval option" where
  "inherited k = map_of Object_prototype k"

text \<open>\<open>o[k]\<close> on a plain object with own properties \<open>ps\<close>.\<close>

definition prop_get :: "props \<Rightarrow> string \<Rightarrow> jsval" where
  "prop_get ps k =
    (case ps k of
       Some v \<Rightarrow> v
     | None \<Rightarrow> (case inherited k of Some b \<Rightarrow> b | None \<Rightarrow> VUndefined))"

text \<open>\<open>k in o\<close> on a plain object.\<close>

definition prop_in :: "string \<Rightarrow> props \<Rightarrow> bool" where
  "prop_in k ps = (\<not> (ps k = None \<and> inherited k = None))"

text \<open>
  \<open>o[k] = v\<close> on a plain object. Assigning to \<open>__proto__\<close> runs the inherited setter
  unless the object has an own property of that name; the model does not follow it.
\<close>

definition prop_set :: "props \<Rightarrow> string \<Rightarrow> jsval \<Rightarrow> error + props" where
  "prop_set ps k v =
    (if k = ''__proto__'' \<and> ps k = None then Inl Unmodelled else Inr (ps(k \<mapsto> v)))"

text \<open>\<open>delete o[k]\<close> removes an own property.\<close>

definition prop_delete :: "props \<Rightarrow> string \<Rightarrow> props" where
  "prop_delete ps k = ps(k := None)"

section \<open>Registry (src/superset/assets/src/modules/Registry.js)\<close>

text \<open>
  \<open>this.items\<close> and \<open>this.promises\<close> are plain objects created by the constructor and
  never handed out, so they are fields of the record; the promises themselves are
  handed to callers and live in the heap. Registered values are not thenables.
\<close>

record Registry =
  name :: string
  items :: props
  promises :: props

definition Registry_constructor :: "string \<Rightarrow> Registry" where
  "Registry_constructor n = \<lparr> name = n, items = Map.empty, promises = Map.empty \<rparr>"

definition has :: "Registry \<Rightarrow> string \<Rightarrow> bool" where
  "has r key = (let item = prop_get (items r) key in item \<noteq> VNull \<and> item \<noteq> VUndefined)"

definition register :: "Registry \<Rightarrow> string \<Rightarrow> jsval \<Rightarrow> error + Registry" where
  "register r key val =
    (case prop_set (items r) key val of
       Inl e \<Rightarrow> Inl e
     | Inr its \<Rightarrow> Inr (r\<lparr> items := its, promises := prop_delete (promises r) key \<rparr>))"

definition get :: "Registry \<Rightarrow> string \<Rightarrow> jsval" where
  "get r key = (let item = prop_get (items r) key in if truthy item then item else VNull)"

definition not_registered :: "string \<Rightarrow> string" where
  "not_registered key = ''Item with key '' @ [CHR 0x22] @ key @ [CHR 0x22] @ '' is not registered.''"

definition getAsPromise :: "Registry \<Rightarrow> string \<Rightarrow> heap \<Rightarrow> error + (jsval \<times> Registry \<times> heap)" where
  "getAsPromise r key h =
    (let promise = prop_get (promises r) key in
     if truthy promise then Inr (promise, r, h)
     else
       let item = get r key in
       if truthy item then
         (let (newPromise, h') = alloc h (Promise (Resolved item)) in
          case prop_set (promises r) key newPromise of
            Inl e \<Rightarrow> Inl e
          | Inr ps \<Rightarrow> Inr (newPromise, r\<lparr> promises := ps \<rparr>, h'))
       else
         (let (rejected, h') = alloc h (Promise (Rejected (VStr (not_registered key))))
          in Inr (rejected, r, h')))"

text \<open>A history of calls on one registry, to say which keys were ever registered.\<close>

datatype call = Register string jsval | Has string | Get string | GetAsPromise string

fun perform :: "call \<Rightarrow> Registry \<times> heap \<Rightarrow> error + (Registry \<times> heap)" where
  "perform (Register key val) (r, h) = (case register r key val of Inl e \<Rightarrow> Inl e | Inr r' \<Rightarrow> Inr (r', h))"
| "perform (Has key) (r, h) = Inr (r, h)"
| "perform (Get key) (r, h) = Inr (r, h)"
| "perform (GetAsPromise key) (r, h) =
     (case getAsPromise r key h of Inl e \<Rightarrow> Inl e | Inr (p, r', h') \<Rightarrow> Inr (r', h'))"

fun perform_all :: "call list \<Rightarrow> Registry \<times> heap \<Rightarrow> error + (Registry \<times> heap)" where
  "perform_all [] s = Inr s"
| "perform_all (c # cs) s = (case perform c s of Inl e \<Rightarrow> Inl e | Inr s' \<Rightarrow> perform_all cs s')"

fun registers :: "string \<Rightarrow> call \<Rightarrow> bool" where
  "registers key (Register key' val) = (key' = key)"
| "registers key c = False"

section \<open>Dashboard reducer (src/superset/assets/javascripts/dashboard/reducers.js)\<close>

subsection \<open>JavaScript operations the reducer uses\<close>

text \<open>Sequencing of steps that may throw: the first error ends the computation.\<close>

definition seq :: "error + 'a \<Rightarrow> ('a \<Rightarrow> error + 'b) \<Rightarrow> error + 'b" where
  "seq m f = (case m of Inl e \<Rightarrow> Inl e | Inr x \<Rightarrow> f x)"

text \<open>\<open>String(n)\<close> for an integer.\<close>

definition digit :: "nat \<Rightarrow> char" where
  "digit d = ''0123456789'' ! d"

function show_nat :: "nat \<Rightarrow> string" where
  "show_nat n = (if n < 10 then [digit n] else show_nat (n div 10) @ [digit (n mod 10)])"
  by pat_completeness auto
termination
  by (relation "measure id") auto

declare show_nat.simps [simp del]

definition show_int :: "int \<Rightarrow> string" where
  "show_int i = (if i < 0 then CHR ''-'' # show_nat (nat (- i)) else show_nat (nat i))"

text \<open>
  The conversion of a value to a property name (\<open>o[v]\<close>, \<open>v in o\<close>, a computed key) and
  \<open>String(v)\<close>, for primitives. Objects convert through their own \<open>toString\<close>, which
  the model does not follow.
\<close>

fun to_key :: "jsval \<Rightarrow> error + string" where
  "to_key VUndefined = Inr ''undefined''"
| "to_key VNull = Inr ''null''"
| "to_key (VBool b) = Inr (if b then ''true'' else ''false'')"
| "to_key (VNum n) = Inr (show_int n)"
| "to_key VNaN = Inr ''NaN''"
| "to_key (VStr s) = Inr s"
| "to_key (VRef a) = Inl Unmodelled"
| "to_key (VBuiltin b) = Inl Unmodelled"

text \<open>
  An array has its indices and \<open>length\<close> as own properties and inherits the members of
  \<open>Array.prototype\<close>, then those of \<open>Object.prototype\<close>. The members listed are those
  of ECMAScript 5 and \<open>find\<close>, which the reducer itself calls; whether an array has one
  of the members that later editions added depends on the engine, and the model has
  no answer for those names.
\<close>

definition Array_prototype :: "(string \<times> jsval) list" where
  "Array_prototype =
    map (\<lambda>m. (m, VBuiltin (''Array.prototype.'' @ m)))
      [''concat'', ''every'', ''filter'', ''find'', ''forEach'', ''indexOf'', ''join'',
       ''lastIndexOf'', ''map'', ''pop'', ''push'', ''reduce'', ''reduceRight'', ''reverse'',
       ''shift'', ''slice'', ''some'', ''sort'', ''splice'', ''toLocaleString'', ''toString'',
       ''unshift'']
    @ [(''constructor'', VBuiltin ''Array''), (''__proto__'', VBuiltin ''Array.prototype'')]"

definition later_Array_members :: "string list" where
  "later_Array_members =
    [''copyWithin'', ''entries'', ''fill'', ''findIndex'', ''keys'', ''values'', ''includes'',
     ''flat'', ''flatMap'', ''at'', ''findLast'', ''findLastIndex'', ''toReversed'',
     ''toSorted'', ''toSpliced'', ''with'']"

text \<open>The index that a property name denotes in an array, when it is the decimal form
  of a position below the length.\<close>

definition array_index :: "jsval list \<Rightarrow> string \<Rightarrow> nat option" where
  "array_index xs k = List.find (\<lambda>i. show_nat i = k) [0..<length xs]"

text \<open>\<open>xs[k]\<close> on an array.\<close>

definition array_get :: "jsval list \<Rightarrow> string \<Rightarrow> error + jsval" where
  "array_get xs k =
    (case array_index xs k of
       Some i \<Rightarrow> Inr (xs ! i)
     | None \<Rightarrow>
         if k = ''length'' then Inr (VNum (int (length xs)))
         else case map_of Array_prototype k of
                Some m \<Rightarrow> Inr m
              | None \<Rightarrow>
                  if k \<in> set later_Array_members then Inl Unmodelled
                  else Inr (prop_get Map.empty k))"

text \<open>\<open>k in xs\<close> on an array.\<close>

definition array_in :: "string \<Rightarrow> jsval list \<Rightarrow> error + bool" where
  "array_in k xs =
    (case array_index xs k of
       Some i \<Rightarrow> Inr True
     | None \<Rightarrow>
         if k = ''length'' then Inr True
         else case map_of Array_prototype k of
                Some m \<Rightarrow> Inr True
              | None \<Rightarrow>
                  if k \<in> set later_Array_members then Inl Unmodelled
                  else Inr (prop_in k Map.empty))"

text \<open>\<open>xs[k] = v\<close> on an array, for an index below the length; another name would
  extend the array or add a property to it, which the model does not follow.\<close>

definition array_set :: "jsval list \<Rightarrow> string \<Rightarrow> jsval \<Rightarrow> error + jsval list" where
  "array_set xs k v =
    (case array_index xs k of Some i \<Rightarrow> Inr (xs[i := v]) | None \<Rightarrow> Inl Unmodelled)"

text \<open>\<open>v[k]\<close> for a constant or computed name \<open>k\<close>: a \<open>TypeError\<close> on \<open>undefined\<close> and
  \<open>null\<close>, the own or inherited property of a plain object or of an array.\<close>

definition get_prop :: "heap \<Rightarrow> jsval \<Rightarrow> string \<Rightarrow> error + jsval" where
  "get_prop h v k =
    (case v of
       VUndefined \<Rightarrow> Inl TypeError
     | VNull \<Rightarrow> Inl TypeError
     | VRef a \<Rightarrow>
         (case deref h a of
            Some (Obj ps) \<Rightarrow> Inr (prop_get ps k)
          | Some (Arr xs) \<Rightarrow> array_get xs k
          | _ \<Rightarrow> Inl Unmodelled)
     | _ \<Rightarrow> Inl Unmodelled)"

text \<open>\<open>k in v\<close>: a \<open>TypeError\<close> when \<open>v\<close> is not an object.\<close>

definition has_in :: "heap \<Rightarrow> jsval \<Rightarrow> jsval \<Rightarrow> error + bool" where
  "has_in h k v =
    (case v of
       VRef a \<Rightarrow>
         (case deref h a of
            Some (Obj ps) \<Rightarrow> seq (to_key k) (\<lambda>s. Inr (prop_in s ps))
          | Some (Arr xs) \<Rightarrow> seq (to_key k) (\<lambda>s. array_in s xs)
          | _ \<Rightarrow> Inl Unmodelled)
     | VBuiltin b \<Rightarrow> Inl Unmodelled
     | _ \<Rightarrow> Inl TypeError)"

text \<open>
  The elements that an array method \<open>m\<close> (\<open>find\<close>, \<open>filter\<close>, \<open>forEach\<close>, \<open>indexOf\<close>)
  works on when it is called as \<open>v.m(...)\<close>. Reading \<open>m\<close> from \<open>undefined\<close> or \<open>null\<close>
  is a \<open>TypeError\<close>; a number, a boolean, a string (for the first three methods), a
  promise, a built-in function and a plain object without a property \<open>m\<close> have no such
  method, and calling \<open>undefined\<close> is a \<open>TypeError\<close> as well.
\<close>

definition array_method :: "string \<Rightarrow> heap \<Rightarrow> jsval \<Rightarrow> error + jsval list" where
  "array_method m h v =
    (case v of
       VUndefined \<Rightarrow> Inl TypeError
     | VNull \<Rightarrow> Inl TypeError
     | VBool b \<Rightarrow> Inl TypeError
     | VNum n \<Rightarrow> Inl TypeError
     | VNaN \<Rightarrow> Inl TypeError
     | VStr s \<Rightarrow> if m = ''indexOf'' then Inl Unmodelled else Inl TypeError
     | VRef a \<Rightarrow>
         (case deref h a of
            Some (Arr xs) \<Rightarrow> Inr xs
          | Some (Obj ps) \<Rightarrow> if ps m = None then Inl TypeError else Inl Unmodelled
          | Some (Promise p) \<Rightarrow> Inl TypeError
          | None \<Rightarrow> Inl Unmodelled)
     | VBuiltin b \<Rightarrow> if b = ''Array.prototype'' then Inl Unmodelled else Inl TypeError)"

text \<open>\<open>xs.indexOf(v) >= 0\<close> on an array, which compares with \<open>===\<close>.\<close>

definition array_includes :: "jsval list \<Rightarrow> jsval \<Rightarrow> bool" where
  "array_includes xs v = list_ex (\<lambda>x. strict_eq x v) xs"

text \<open>Whether the text \<open>t\<close> occurs in the text \<open>s\<close>.\<close>

fun occurs :: "string \<Rightarrow> string \<Rightarrow> bool" where
  "occurs t [] = (t = [])"
| "occurs t (c # s) = (take (length t) (c # s) = t \<or> occurs t s)"

text \<open>\<open>r.indexOf(v) >= 0\<close> (the same as \<open>r.indexOf(v) !== -1\<close>) for a receiver \<open>r\<close>: the
  search of an array, or of a string for the text of \<open>v\<close>.\<close>

definition indexOf_found :: "heap \<Rightarrow> jsval \<Rightarrow> jsval \<Rightarrow> error + bool" where
  "indexOf_found h r v =
    (case r of
       VStr s \<Rightarrow> seq (to_key v) (\<lambda>t. Inr (occurs t s))
     | _ \<Rightarrow> seq (array_method ''indexOf'' h r) (\<lambda>xs. Inr (array_includes xs v)))"

text \<open>\<open>v instanceof Array\<close>.\<close>

definition instanceof_Array :: "heap \<Rightarrow> jsval \<Rightarrow> bool" where
  "instanceof_Array h v =
    (case v of VRef a \<Rightarrow> (case deref h a of Some (Arr xs) \<Rightarrow> True | _ \<Rightarrow> False) | _ \<Rightarrow> False)"

text \<open>The own enumerable properties \<open>Object.assign\<close> copies from a source: none for
  \<open>undefined\<close>, \<open>null\<close>, numbers, booleans and built-ins, the indices of an array or a
  string.\<close>

definition indexed :: "jsval list \<Rightarrow> props" where
  "indexed xs = map_of (zip (map show_nat [0..<length xs]) xs)"

definition own_enumerable :: "heap \<Rightarrow> jsval \<Rightarrow> error + props" where
  "own_enumerable h v =
    (case v of
       VRef a \<Rightarrow>
         (case deref h a of
            Some (Obj ps) \<Rightarrow> Inr ps
          | Some (Arr xs) \<Rightarrow> Inr (indexed xs)
          | Some (Promise p) \<Rightarrow> Inr Map.empty
          | None \<Rightarrow> Inl Unmodelled)
     | VStr s \<Rightarrow> Inr (indexed (map (\<lambda>c. VStr [c]) s))
     | _ \<Rightarrow> Inr Map.empty)"

text \<open>Copying the properties \<open>src\<close> onto a target with properties \<open>tgt\<close>, by assignment;
  a source property \<open>__proto__\<close> would run the target's inherited setter.\<close>

definition assign :: "props \<Rightarrow> props \<Rightarrow> error + props" where
  "assign tgt src =
    (if src ''__proto__'' = None then Inr (tgt ++ src)
     else if tgt ''__proto__'' = None then Inl Unmodelled
     else Inr (tgt ++ src))"

text \<open>\<open>Object.assign({}, v, { ...lit })\<close>: the properties of the new object.\<close>

definition Object_assign :: "heap \<Rightarrow> jsval \<Rightarrow> props \<Rightarrow> error + props" where
  "Object_assign h v lit =
    seq (own_enumerable h v) (\<lambda>ps. seq (assign Map.empty ps) (\<lambda>t. assign t lit))"

text \<open>
  \<open>d3.merge(arrays)\<close> of the d3 library (version 3): it adds up the \<open>length\<close> of each
  element and copies the elements of each into one new array. Reading \<open>length\<close> of
  \<open>undefined\<close> or \<open>null\<close> is a \<open>TypeError\<close>; a number or a boolean has no length, and
  the array of that size cannot be created.
\<close>

definition array_like :: "heap \<Rightarrow> jsval \<Rightarrow> error + jsval list" where
  "array_like h v =
    (case v of
       VUndefined \<Rightarrow> Inl TypeError
     | VNull \<Rightarrow> Inl TypeError
     | VBool b \<Rightarrow> Inl RangeError
     | VNum n \<Rightarrow> Inl RangeError
     | VNaN \<Rightarrow> Inl RangeError
     | VStr s \<Rightarrow> Inr (map (\<lambda>c. VStr [c]) s)
     | VRef a \<Rightarrow> (case deref h a of Some (Arr xs) \<Rightarrow> Inr xs | _ \<Rightarrow> Inl Unmodelled)
     | VBuiltin b \<Rightarrow> Inl Unmodelled)"

fun gather :: "(error + 'a list) list \<Rightarrow> error + 'a list" where
  "gather [] = Inr []"
| "gather (r # rs) = seq r (\<lambda>xs. seq (gather rs) (\<lambda>ys. Inr (xs @ ys)))"

definition d3_merge :: "heap \<Rightarrow> jsval list \<Rightarrow> error + jsval list" where
  "d3_merge h arrays =
    (if list_ex (\<lambda>v. v = VUndefined) arrays then Inl TypeError
     else if list_ex (\<lambda>v. v = VNull) arrays then Inl TypeError
     else gather (map (array_like h) arrays))"

text \<open>\<open>o[k] = v\<close> on a value \<open>o\<close>: the object is updated in place, so every reference to
  it sees the new property.\<close>

definition set_prop :: "heap \<Rightarrow> jsval \<Rightarrow> string \<Rightarrow> jsval \<Rightarrow> error + heap" where
  "set_prop h obj k v =
    (case obj of
       VUndefined \<Rightarrow> Inl TypeError
     | VNull \<Rightarrow> Inl TypeError
     | VRef a \<Rightarrow>
         (case deref h a of
            Some (Obj ps) \<Rightarrow> seq (prop_set ps k v) (\<lambda>ps'. Inr (h[a := Obj ps']))
          | Some (Arr xs) \<Rightarrow> seq (array_set xs k v) (\<lambda>xs'. Inr (h[a := Arr xs']))
          | _ \<Rightarrow> Inl Unmodelled)
     | _ \<Rightarrow> Inl Unmodelled)"

subsection \<open>What the reducer imports\<close>

text \<open>
  The action type constants come from \<open>./actions\<close> and the two array helpers from
  \<open>../reduxUtils\<close>; neither file is among the sources, so both are parameters. An
  action is a plain object: its own properties.
\<close>

record actions =
  UPDATE_DASHBOARD_TITLE :: string
  UPDATE_DASHBOARD_LAYOUT :: string
  REMOVE_SLICE :: string
  TOGGLE_FAVE_STAR :: string
  TOGGLE_EXPAND_SLICE :: string
  ADD_FILTER :: string
  CLEAR_FILTER :: string
  REMOVE_FILTER :: string
  UPDATE_SLICE_NAME :: string

type_synonym outcome = "error + (jsval \<times> heap)"

record reduxUtils =
  removeFromArr :: "heap \<Rightarrow> jsval \<Rightarrow> string \<Rightarrow> jsval \<Rightarrow> string \<Rightarrow> outcome"
  alterInArr :: "heap \<Rightarrow> jsval \<Rightarrow> string \<Rightarrow> jsval \<Rightarrow> props \<Rightarrow> string \<Rightarrow> outcome"

subsection \<open>The action handlers\<close>

definition handle_UPDATE_DASHBOARD_TITLE :: "heap \<Rightarrow> jsval \<Rightarrow> props \<Rightarrow> outcome" where
  "handle_UPDATE_DASHBOARD_TITLE h state action =
    seq (get_prop h state ''dashboard'') (\<lambda>d.
    seq (Object_assign h d [''dashboard_title'' \<mapsto> prop_get action ''title'']) (\<lambda>ps.
    case alloc h (Obj ps) of (newDashboard, h1) \<Rightarrow>
    seq (Object_assign h1 state [''dashboard'' \<mapsto> newDashboard]) (\<lambda>ns.
    Inr (alloc h1 (Obj ns)))))"

definition handle_UPDATE_DASHBOARD_LAYOUT :: "heap \<Rightarrow> jsval \<Rightarrow> props \<Rightarrow> outcome" where
  "handle_UPDATE_DASHBOARD_LAYOUT h state action =
    seq (get_prop h state ''dashboard'') (\<lambda>d.
    seq (Object_assign h d [''layout'' \<mapsto> prop_get action ''layout'']) (\<lambda>ps.
    case alloc h (Obj ps) of (newDashboard, h1) \<Rightarrow>
    seq (Object_assign h1 state [''dashboard'' \<mapsto> newDashboard]) (\<lambda>ns.
    Inr (alloc h1 (Obj ns)))))"

text \<open>The callback of \<open>layout.filter\<close>: keep \<open>reactPos\<close> when
  \<open>reactPos.i !== String(action.slice.slice_id)\<close>.\<close>

fun filter_layout :: "heap \<Rightarrow> props \<Rightarrow> jsval list \<Rightarrow> error + jsval list" where
  "filter_layout h action [] = Inr []"
| "filter_layout h action (reactPos # rest) =
    seq (get_prop h reactPos ''i'') (\<lambda>i.
    seq (get_prop h (prop_get action ''slice'') ''slice_id'') (\<lambda>slice_id.
    seq (to_key slice_id) (\<lambda>s.
    seq (filter_layout h action rest) (\<lambda>kept.
    Inr (if strict_eq i (VStr s) then kept else reactPos # kept)))))"

definition handle_REMOVE_SLICE :: "reduxUtils \<Rightarrow> heap \<Rightarrow> jsval \<Rightarrow> props \<Rightarrow> outcome" where
  "handle_REMOVE_SLICE utils h state action =
    seq (get_prop h state ''dashboard'') (\<lambda>d.
    seq (get_prop h d ''layout'') (\<lambda>layout.
    seq (array_method ''filter'' h layout) (\<lambda>xs.
    seq (filter_layout h action xs) (\<lambda>kept.
    case alloc h (Arr kept) of (newLayout, h1) \<Rightarrow>
    seq (removeFromArr utils h1 d ''slices'' (prop_get action ''slice'') ''slice_id'') (\<lambda>(removed, h2).
    seq (Object_assign h2 removed [''layout'' \<mapsto> newLayout]) (\<lambda>ps.
    case alloc h2 (Obj ps) of (newDashboard, h3) \<Rightarrow>
    seq (Object_assign h3 state [''dashboard'' \<mapsto> newDashboard]) (\<lambda>ns.
    Inr (alloc h3 (Obj ns)))))))))"

definition handle_TOGGLE_FAVE_STAR :: "heap \<Rightarrow> jsval \<Rightarrow> props \<Rightarrow> outcome" where
  "handle_TOGGLE_FAVE_STAR h state action =
    seq (Object_assign h state [''isStarred'' \<mapsto> prop_get action ''isStarred'']) (\<lambda>ns.
    Inr (alloc h (Obj ns)))"

definition handle_TOGGLE_EXPAND_SLICE :: "heap \<Rightarrow> jsval \<Rightarrow> props \<Rightarrow> outcome" where
  "handle_TOGGLE_EXPAND_SLICE h state action =
    seq (get_prop h state ''dashboard'') (\<lambda>d.
    seq (get_prop h d ''metadata'') (\<lambda>md.
    seq (get_prop h md ''expanded_slices'') (\<lambda>es.
    seq (Object_assign h es Map.empty) (\<lambda>copied.
    seq (get_prop h (prop_get action ''slice'') ''slice_id'') (\<lambda>sliceId.
    seq (to_key sliceId) (\<lambda>sk.
    seq (if truthy (prop_get action ''isExpanded'')
         then prop_set copied sk (VBool True)
         else Inr (prop_delete copied sk)) (\<lambda>updated.
    case alloc h (Obj updated) of (updatedExpandedSlices, h1) \<Rightarrow>
    seq (Object_assign h1 md [''expanded_slices'' \<mapsto> updatedExpandedSlices]) (\<lambda>mps.
    case alloc h1 (Obj mps) of (metadata, h2) \<Rightarrow>
    seq (Object_assign h2 d [''metadata'' \<mapsto> metadata]) (\<lambda>dps.
    case alloc h2 (Obj dps) of (newDashboard, h3) \<Rightarrow>
    seq (Object_assign h3 state [''dashboard'' \<mapsto> newDashboard]) (\<lambda>ns.
    Inr (alloc h3 (Obj ns))))))))))))"

text \<open>\<open>state.dashboard.slices.find(slice => slice.slice_id === action.sliceId)\<close>.\<close>

fun find_slice :: "heap \<Rightarrow> jsval \<Rightarrow> jsval list \<Rightarrow> error + jsval" where
  "find_slice h sliceId [] = Inr VUndefined"
| "find_slice h sliceId (slice # rest) =
    seq (get_prop h slice ''slice_id'') (\<lambda>slice_id.
    if strict_eq slice_id sliceId then Inr slice else find_slice h sliceId rest)"

definition filterKeys :: "jsval list" where
  "filterKeys = [VStr ''__from'', VStr ''__to'', VStr ''__time_col'',
                 VStr ''__time_grain'', VStr ''__time_origin'', VStr ''__granularity'']"

text \<open>\<open>filterKeys.indexOf(col) >= 0 || selectedSlice.formData.groupby.indexOf(col) !== -1\<close>;
  the group-by columns are read only when \<open>col\<close> is not one of the fixed keys.\<close>

definition filterable :: "heap \<Rightarrow> jsval \<Rightarrow> jsval \<Rightarrow> error + bool" where
  "filterable h selectedSlice col =
    (if array_includes filterKeys col then Inr True
     else
       seq (get_prop h selectedSlice ''formData'') (\<lambda>formData.
       seq (get_prop h formData ''groupby'') (\<lambda>groupby.
       indexOf_found h groupby col)))"

text \<open>The three branches that compute \<open>newFilter\<close> from \<open>existing = filters[sliceId]\<close>.\<close>

definition newFilter_of :: "heap \<Rightarrow> jsval \<Rightarrow> jsval \<Rightarrow> jsval \<Rightarrow> jsval \<Rightarrow> outcome" where
  "newFilter_of h existing col vals merge =
    seq (if truthy existing then seq (has_in h col existing) (\<lambda>b. Inr (\<not> b)) else Inr False)
      (\<lambda>absent.
    seq (to_key col) (\<lambda>ck.
    if absent \<or> \<not> truthy merge then
      seq (Object_assign h existing [ck \<mapsto> vals]) (\<lambda>ps. Inr (alloc h (Obj ps)))
    else
      seq (get_prop h existing ck) (\<lambda>old.
      if instanceof_Array h old then
        seq (d3_merge h [old, vals]) (\<lambda>merged. Inr (alloc h (Arr merged)))
      else
        case alloc h (Arr [old]) of (boxed, h1) \<Rightarrow>
        seq (d3_merge h1 [boxed, vals]) (\<lambda>merged.
        case alloc h1 (Arr merged) of (m, h2) \<Rightarrow>
        let first = (case merged of [] \<Rightarrow> VUndefined | x # xs \<Rightarrow> x)
        in Inr (if truthy first then first else VStr [], h2)))))"

definition handle_ADD_FILTER :: "heap \<Rightarrow> jsval \<Rightarrow> props \<Rightarrow> outcome" where
  "handle_ADD_FILTER h state action =
    seq (get_prop h state ''dashboard'') (\<lambda>d.
    seq (get_prop h d ''slices'') (\<lambda>slices.
    seq (array_method ''find'' h slices) (\<lambda>xs.
    seq (find_slice h (prop_get action ''sliceId'') xs) (\<lambda>selectedSlice.
    if \<not> truthy selectedSlice then Inr (state, h)
    else
      seq (get_prop h state ''filters'') (\<lambda>state_filters.
      seq (Object_assign h state_filters Map.empty) (\<lambda>copied.
      let sliceId = prop_get action ''sliceId'';
          col = prop_get action ''col'';
          vals = prop_get action ''vals'';
          merge = prop_get action ''merge'';
          refresh = prop_get action ''refresh''
      in
      seq (filterable h selectedSlice col) (\<lambda>applies.
      seq (if applies then
             seq (has_in h sliceId state_filters) (\<lambda>present.
             seq (to_key sliceId) (\<lambda>sk.
             seq (if present then Inr (copied, h)
                  else case alloc h (Obj Map.empty) of (blank, h1) \<Rightarrow>
                       seq (assign copied [sk \<mapsto> blank]) (\<lambda>ps. Inr (ps, h1)))
               (\<lambda>(filters1, h1).
             seq (newFilter_of h1 (prop_get filters1 sk) col vals merge) (\<lambda>(newFilter, h2).
             seq (assign filters1 [sk \<mapsto> newFilter]) (\<lambda>filters2.
             Inr (filters2, h2))))))
           else Inr (copied, h))
        (\<lambda>(filters_props, h3).
      case alloc h3 (Obj filters_props) of (filters, h4) \<Rightarrow>
      seq (Object_assign h4 state [''filters'' \<mapsto> filters, ''refresh'' \<mapsto> refresh]) (\<lambda>ns.
      Inr (alloc h4 (Obj ns)))))))))))"

definition handle_CLEAR_FILTER :: "heap \<Rightarrow> jsval \<Rightarrow> props \<Rightarrow> outcome" where
  "handle_CLEAR_FILTER h state action =
    seq (get_prop h state ''filters'') (\<lambda>state_filters.
    seq (Object_assign h state_filters Map.empty) (\<lambda>copied.
    seq (to_key (prop_get action ''sliceId'')) (\<lambda>sk.
    case alloc h (Obj (prop_delete copied sk)) of (newFilters, h1) \<Rightarrow>
    seq (Object_assign h1 state [''filter'' \<mapsto> newFilters, ''refresh'' \<mapsto> VBool True]) (\<lambda>ns.
    Inr (alloc h1 (Obj ns))))))"

text \<open>The \<open>forEach\<close> of the remove handler: keep \<open>v\<close> when \<open>vals.indexOf(v) < 0\<close>.\<close>

fun remaining :: "heap \<Rightarrow> jsval \<Rightarrow> jsval list \<Rightarrow> error + jsval list" where
  "remaining h vals [] = Inr []"
| "remaining h vals (v # rest) =
    seq (indexOf_found h vals v) (\<lambda>found.
    seq (remaining h vals rest) (\<lambda>kept.
    Inr (if found then kept else v # kept)))"

text \<open>The block \<open>if (sliceId in state.filters) { if (col in state.filters[sliceId]) { ... } }\<close>.
  \<open>newFilters\<close> is a shallow copy, so \<open>newFilters[sliceId]\<close> is the object that
  \<open>state.filters[sliceId]\<close> refers to, and the assignment to its property \<open>col\<close> changes
  that object in place.\<close>

definition remove_values :: "heap \<Rightarrow> jsval \<Rightarrow> props \<Rightarrow> jsval \<Rightarrow> jsval \<Rightarrow> jsval \<Rightarrow> error + heap" where
  "remove_values h state_filters copied sliceId col vals =
    seq (has_in h sliceId state_filters) (\<lambda>present.
    if present then
      seq (to_key sliceId) (\<lambda>sk.
      seq (get_prop h state_filters sk) (\<lambda>entry.
      seq (has_in h col entry) (\<lambda>has_col.
      if has_col then
        seq (to_key col) (\<lambda>ck.
        seq (get_prop h (prop_get copied sk) ck) (\<lambda>old.
        seq (array_method ''forEach'' h old) (\<lambda>xs.
        seq (remaining h vals xs) (\<lambda>kept.
        case alloc h (Arr kept) of (a, h1) \<Rightarrow>
        set_prop h1 (prop_get copied sk) ck a))))
      else Inr h)))
    else Inr h)"

definition handle_REMOVE_FILTER :: "heap \<Rightarrow> jsval \<Rightarrow> props \<Rightarrow> outcome" where
  "handle_REMOVE_FILTER h state action =
    seq (get_prop h state ''filters'') (\<lambda>state_filters.
    seq (Object_assign h state_filters Map.empty) (\<lambda>copied.
    case alloc h (Obj copied) of (newFilters, h1) \<Rightarrow>
    seq (remove_values h1 state_filters copied (prop_get action ''sliceId'')
           (prop_get action ''col'') (prop_get action ''vals'')) (\<lambda>h2.
    seq (Object_assign h2 state [''filter'' \<mapsto> newFilters, ''refresh'' \<mapsto> VBool True]) (\<lambda>ns.
    Inr (alloc h2 (Obj ns))))))"


definition handle_UPDATE_SLICE_NAME :: "reduxUtils \<Rightarrow> heap \<Rightarrow> jsval \<Rightarrow> props \<Rightarrow> outcome" where
  "handle_UPDATE_SLICE_NAME utils h state action =
    seq (get_prop h state ''dashboard'') (\<lambda>d.
    seq (alterInArr utils h d ''slices'' (prop_get action ''slice'')
           [''slice_name'' \<mapsto> prop_get action ''sliceName''] ''slice_id'') (\<lambda>(newDashboard, h1).
    seq (Object_assign h1 state [''dashboard'' \<mapsto> newDashboard]) (\<lambda>ns.
    Inr (alloc h1 (Obj ns)))))"

subsection \<open>The dispatch\<close>

datatype handler =
    H_UPDATE_DASHBOARD_TITLE
  | H_UPDATE_DASHBOARD_LAYOUT
  | H_REMOVE_SLICE
  | H_TOGGLE_FAVE_STAR
  | H_TOGGLE_EXPAND_SLICE
  | H_ADD_FILTER
  | H_CLEAR_FILTER
  | H_REMOVE_FILTER
  | H_UPDATE_SLICE_NAME

text \<open>The object literal \<open>actionHandlers\<close>, its computed keys in the order of the source.
  A key written twice keeps the later function.\<close>

definition actionHandlers :: "actions \<Rightarrow> (string \<times> handler) list" where
  "actionHandlers acts =
    [(UPDATE_DASHBOARD_TITLE acts, H_UPDATE_DASHBOARD_TITLE),
     (UPDATE_DASHBOARD_LAYOUT acts, H_UPDATE_DASHBOARD_LAYOUT),
     (REMOVE_SLICE acts, H_REMOVE_SLICE),
     (TOGGLE_FAVE_STAR acts, H_TOGGLE_FAVE_STAR),
     (TOGGLE_EXPAND_SLICE acts, H_TOGGLE_EXPAND_SLICE),
     (ADD_FILTER acts, H_ADD_FILTER),
     (CLEAR_FILTER acts, H_CLEAR_FILTER),
     (REMOVE_FILTER acts, H_REMOVE_FILTER),
     (UPDATE_SLICE_NAME acts, H_UPDATE_SLICE_NAME)]"

definition own_handler :: "actions \<Rightarrow> string \<Rightarrow> handler option" where
  "own_handler acts k = map_of (rev (actionHandlers acts)) k"

definition run_handler :: "reduxUtils \<Rightarrow> handler \<Rightarrow> heap \<Rightarrow> jsval \<Rightarrow> props \<Rightarrow> outcome" where
  "run_handler utils fn h state action =
    (case fn of
       H_UPDATE_DASHBOARD_TITLE \<Rightarrow> handle_UPDATE_DASHBOARD_TITLE h state action
     | H_UPDATE_DASHBOARD_LAYOUT \<Rightarrow> handle_UPDATE_DASHBOARD_LAYOUT h state action
     | H_REMOVE_SLICE \<Rightarrow> handle_REMOVE_SLICE utils h state action
     | H_TOGGLE_FAVE_STAR \<Rightarrow> handle_TOGGLE_FAVE_STAR h state action
     | H_TOGGLE_EXPAND_SLICE \<Rightarrow> handle_TOGGLE_EXPAND_SLICE h state action
     | H_ADD_FILTER \<Rightarrow> handle_ADD_FILTER h state action
     | H_CLEAR_FILTER \<Rightarrow> handle_CLEAR_FILTER h state action
     | H_REMOVE_FILTER \<Rightarrow> handle_REMOVE_FILTER h state action
     | H_UPDATE_SLICE_NAME \<Rightarrow> handle_UPDATE_SLICE_NAME utils h state action)"

text \<open>
  \<open>actionHandlers[k]()\<close> when \<open>k\<close> is not a key of the literal but a member of
  \<open>Object.prototype\<close>: the inherited member is called on the handler table with no
  argument. \<open>toLocaleString\<close> calls \<open>this.toString()\<close>, the inherited one unless the
  table has a key of that name. \<open>valueOf\<close> returns the table itself, an object of
  closures for which the model has no value; \<open>__defineGetter__\<close>,
  \<open>__defineSetter__\<close> and the call of \<open>__proto__\<close> throw.
\<close>

definition call_inherited :: "actions \<Rightarrow> heap \<Rightarrow> string \<Rightarrow> outcome" where
  "call_inherited acts h k =
    (if k = ''constructor'' then Inr (alloc h (Obj Map.empty))
     else if k = ''toString'' then Inr (VStr ''[object Object]'', h)
     else if k = ''toLocaleString'' then
       (case own_handler acts ''toString'' of
          None \<Rightarrow> Inr (VStr ''[object Object]'', h)
        | Some fn \<Rightarrow> Inl Unmodelled)
     else if k = ''hasOwnProperty'' then Inr (VBool (own_handler acts ''undefined'' \<noteq> None), h)
     else if k = ''propertyIsEnumerable'' then Inr (VBool (own_handler acts ''undefined'' \<noteq> None), h)
     else if k = ''isPrototypeOf'' then Inr (VBool False, h)
     else if k = ''__lookupGetter__'' then Inr (VUndefined, h)
     else if k = ''__lookupSetter__'' then Inr (VUndefined, h)
     else if k = ''valueOf'' then Inl Unmodelled
     else Inl TypeError)"

text \<open>
  The reducer: \<open>state\<close> defaults to a new empty object when it is \<open>undefined\<close>; the
  handler is looked up with \<open>action.type in actionHandlers\<close>, which also finds the
  inherited members.
\<close>

definition dashboard :: "actions \<Rightarrow> reduxUtils \<Rightarrow> heap \<Rightarrow> jsval \<Rightarrow> props \<Rightarrow> outcome" where
  "dashboard acts utils h0 state0 action =
    (case (if state0 = VUndefined then alloc h0 (Obj Map.empty) else (state0, h0)) of
       (state, h) \<Rightarrow>
         seq (to_key (prop_get action ''type'')) (\<lambda>ty.
         case own_handler acts ty of
           Some fn \<Rightarrow> run_handler utils fn h state action
         | None \<Rightarrow>
             (case inherited ty of
                Some member \<Rightarrow> call_inherited acts h ty
              | None \<Rightarrow> Inr (state, h))))"

text \<open>The constants as an actions module conventionally defines them, each the string
  of its own name, and helpers that are never reached: the inputs of the concrete runs.\<close>

definition action_types :: actions where
  "action_types =
    \<lparr> UPDATE_DASHBOARD_TITLE = ''UPDATE_DASHBOARD_TITLE'',
      UPDATE_DASHBOARD_LAYOUT = ''UPDATE_DASHBOARD_LAYOUT'',
      REMOVE_SLICE = ''REMOVE_SLICE'',
      TOGGLE_FAVE_STAR = ''TOGGLE_FAVE_STAR'',
      TOGGLE_EXPAND_SLICE = ''TOGGLE_EXPAND_SLICE'',
      ADD_FILTER = ''ADD_FILTER'',
      CLEAR_FILTER = ''CLEAR_FILTER'',
      REMOVE_FILTER = ''REMOVE_FILTER'',
      UPDATE_SLICE_NAME = ''UPDATE_SLICE_NAME'' \<rparr>"

definition no_utils :: reduxUtils where
  "no_utils =
    \<lparr> removeFromArr = (\<lambda>h state arrKey obj idKey. Inl Unmodelled),
      alterInArr = (\<lambda>h state arrKey obj alterations idKey. Inl Unmodelled) \<rparr>"

text \<open>
  A dashboard with one slice (id 1, grouped by \<open>region\<close>) whose filter on \<open>region\<close> holds
  the list \<open>['a']\<close>:
  \<open>{ dashboard: { slices: [{ slice_id: 1, formData: { groupby: ['region'] } }] },
       filters: { 1: { region: ['a'] } } }\<close>, the state at address 8; address 9 holds the
  list \<open>['b']\<close> of an action.
\<close>

definition filtered_dashboard :: heap where
  "filtered_dashboard =
    [Arr [VStr ''region''],
     Obj [''groupby'' \<mapsto> VRef 0],
     Obj [''slice_id'' \<mapsto> VNum 1, ''formData'' \<mapsto> VRef 1],
     Arr [VRef 2],
     Obj [''slices'' \<mapsto> VRef 3],
     Arr [VStr ''a''],
     Obj [''region'' \<mapsto> VRef 5],
     Obj [''1'' \<mapsto> VRef 6],
     Obj [''dashboard'' \<mapsto> VRef 4, ''filters'' \<mapsto> VRef 7],
     Arr [VStr ''b'']]"

definition filter_action :: "string \<Rightarrow> props" where
  "filter_action ty =
    [''type'' \<mapsto> VStr ty, ''sliceId'' \<mapsto> VNum 1, ''col'' \<mapsto> VStr ''region'',
     ''vals'' \<mapsto> VRef 9, ''merge'' \<mapsto> VBool True, ''refresh'' \<mapsto> VBool True]"

subsection \<open>The composite store\<close>

type_synonym reducer = "heap \<Rightarrow> jsval \<Rightarrow> props \<Rightarrow> outcome"

text \<open>
  Modelled from the spec: \<open>combineReducers\<close> is a function of the redux library, which
  is not among the sources. The composite reducer gives each named slice
  \<open>subReducers[name](rootState[name], action)\<close>, and returns its input when every
  sub-reducer returned its input (compared with \<open>===\<close>), a new root state otherwise.
\<close>

fun combination :: "(string \<times> reducer) list \<Rightarrow> heap \<Rightarrow> jsval \<Rightarrow> props \<Rightarrow> props \<Rightarrow> bool \<Rightarrow>
    error + (props \<times> bool \<times> heap)" where
  "combination [] h state action nextState hasChanged = Inr (nextState, hasChanged, h)"
| "combination ((key, reducer) # rest) h state action nextState hasChanged =
    seq (get_prop h state key) (\<lambda>previousStateForKey.
    seq (reducer h previousStateForKey action) (\<lambda>(nextStateForKey, h1).
    combination rest h1 state action (nextState(key \<mapsto> nextStateForKey))
      (hasChanged \<or> \<not> strict_eq nextStateForKey previousStateForKey)))"

text \<open>Modelled from the spec: the composite reducer that \<open>combineReducers\<close> of the
  redux library returns, with the loop above over the named sub-reducers.\<close>

definition combineReducers :: "(string \<times> reducer) list \<Rightarrow> reducer" where
  "combineReducers reducers h state action =
    seq (combination reducers h state action Map.empty False) (\<lambda>(nextState, hasChanged, h1).
    if hasChanged then Inr (alloc h1 (Obj nextState)) else Inr (state, h1))"

text \<open>The default export; the \<open>charts\<close> reducer of \<open>../chart/chartReducer\<close> is not among
  the sources and is a parameter.\<close>

definition rootReducer :: "actions \<Rightarrow> reduxUtils \<Rightarrow> reducer \<Rightarrow> reducer" where
  "rootReducer acts utils charts =
    combineReducers [(''charts'', charts), (''dashboard'', dashboard acts utils)]"

text \<open>A \<open>charts\<close> reducer that returns its slice as it is, and a root state
  \<open>{ charts: ..., dashboard: ... }\<close> over the example dashboard, at address 10: the
  inputs of a concrete run.\<close>

definition idle_charts :: reducer where
  "idle_charts h v action = Inr (v, h)"

definition root_heap :: heap where
  "root_heap = filtered_dashboard @ [Obj [''charts'' \<mapsto> VRef 0, ''dashboard'' \<mapsto> VRef 8]]"

section \<open>Initial state (getInitialState in dashboard/reducers.js)\<close>

text \<open>
  The bootstrap payload is parsed JSON, so it is modelled as typed data: slice
  identifiers and positions are integers, the parts the function only passes on are
  JSON values. \<open>getParam\<close> (from \<open>../modules/utils\<close>), \<open>applyDefaultFormData\<close> (from
  \<open>../explore/stores/store\<close>), the default \<open>chart\<close> (from \<open>../chart/chartReducer\<close>) and
  the built-in \<open>JSON.parse\<close> are parameters; \<open>JSON.parse\<close> returns \<open>None\<close> where it
  throws, and the properties of a parsed object in the order \<open>for ... in\<close> visits them.
\<close>

datatype json =
    JNull
  | JBool bool
  | JNum int
  | JStr string
  | JArr "json list"
  | JObj "(string \<times> json) list"

record env =
  getParam :: "string \<Rightarrow> string"
  JSON_parse :: "string \<Rightarrow> json option"
  applyDefaultFormData :: "json \<Rightarrow> json"
  chart :: json

record pos =
  col :: int
  row :: int
  size_x :: int
  size_y :: int

record slice =
  slice_id :: int
  form_data :: json
  formData :: "json option"

record metadata =
  default_filters :: "string option"

text \<open>An entry of \<open>position_json\<close> is paired with its \<open>slice_id\<close>.\<close>

record dashboard_data =
  slices :: "slice list"
  position_json :: "(int \<times> pos) list option"
  metadata :: "metadata option"

record bootstrapData =
  user_id :: json
  datasources :: json
  common :: "string \<rightharpoonup> json"
  dashboard_data :: dashboard_data

text \<open>An element of \<open>dashboard.layout\<close>, with fields \<open>i\<close>, \<open>x\<close>, \<open>y\<close>, \<open>w\<close>, \<open>minW\<close>, \<open>h\<close>.\<close>

record layout_item =
  l_i :: string
  l_x :: int
  l_y :: int
  l_w :: int
  l_minW :: int
  l_h :: int

record dashboard_object = dashboard_data +
  posDict :: "int \<rightharpoonup> pos"
  layout :: "layout_item list"

record chart_record =
  chart_defaults :: json
  chartKey :: string
  chart_slice_id :: int
  chart_form_data :: json
  chart_formData :: json

text \<open>The field \<open>filters\<close> of the state is \<open>None\<close> when the model has no value for it: when
  a key of the preset is an integer that a double does not hold exactly (see
  \<open>parseInt10\<close> below).\<close>

record dashboard_state =
  filters :: "(string \<rightharpoonup> json) option"
  dashboard_object :: dashboard_object
  userId :: json
  state_datasources :: json
  state_common :: "string \<rightharpoonup> json"

record initial_state =
  initCharts :: "(string \<times> chart_record) list"
  dashboard_state :: dashboard_state

subsection \<open>The preset filters\<close>

text \<open>
  \<open>parseInt(key, 10)\<close>: leading white space, an optional sign, then the longest run of
  decimal digits; \<open>NaN\<close> when there is no digit. The result is a double. An integer of
  magnitude up to \<open>2^53\<close> is held exactly and \<open>String\<close> prints its decimal digits; a
  larger one is rounded to a neighbouring double (how, is left to the engine beyond
  20 significant digits) and printed in the shortest form that reads back as that
  double (in exponent notation from \<open>1e21\<close>), which the model does not compute: it
  answers \<open>Rounded\<close>.
\<close>

datatype parsed = NotANumber | Exact int | Rounded

definition white_space :: "char list" where
  "white_space = [CHR 0x09, CHR 0x0A, CHR 0x0B, CHR 0x0C, CHR 0x0D, CHR 0x20, CHR 0xA0]"

definition digit_value :: "char \<Rightarrow> nat" where
  "digit_value c = length (takeWhile (\<lambda>d. d \<noteq> c) ''0123456789'')"

definition is_digit :: "char \<Rightarrow> bool" where
  "is_digit c = (c \<in> set ''0123456789'')"

definition digits_value :: "string \<Rightarrow> nat" where
  "digits_value ds = foldl (\<lambda>n c. n * 10 + digit_value c) 0 ds"

definition parseInt10 :: "string \<Rightarrow> parsed" where
  "parseInt10 s =
    (let t = dropWhile (\<lambda>c. c \<in> set white_space) s;
         negative = (take 1 t = ''-'');
         u = (if take 1 t = ''-'' then drop 1 t else if take 1 t = ''+'' then drop 1 t else t);
         ds = takeWhile is_digit u
     in if ds = [] then NotANumber
        else if 9007199254740992 < digits_value ds then Rounded
        else Exact (if negative then - int (digits_value ds) else int (digits_value ds)))"

text \<open>The property name of \<open>filters[sliceId]\<close> for \<open>sliceId = parseInt(key, 10)\<close>, that is
  \<open>String(sliceId)\<close>; \<open>None\<close> when the model has no value for \<open>sliceId\<close>.\<close>

definition filter_key :: "string \<Rightarrow> string option" where
  "filter_key key =
    (case parseInt10 key of
       NotANumber \<Rightarrow> Some ''NaN''
     | Exact n \<Rightarrow> Some (show_int n)
     | Rounded \<Rightarrow> None)"

text \<open>What \<open>for (const key in filterData)\<close> visits, each key with \<open>filterData[key]\<close>.\<close>

fun for_in :: "json \<Rightarrow> (string \<times> json) list" where
  "for_in (JObj kvs) = kvs"
| "for_in (JArr xs) = zip (map show_nat [0..<length xs]) xs"
| "for_in (JStr s) = zip (map show_nat [0..<length s]) (map (\<lambda>c. JStr [c]) s)"
| "for_in v = []"

text \<open>The loop \<open>for (const key in filterData) { filters[parseInt(key, 10)] = filterData[key] }\<close>
  over the visited properties, starting from the filters \<open>fs\<close>.\<close>

fun store_filters :: "(string \<times> json) list \<Rightarrow> (string \<rightharpoonup> json) \<Rightarrow> (string \<rightharpoonup> json) option" where
  "store_filters [] fs = Some fs"
| "store_filters ((key, v) # rest) fs =
    (case filter_key key of
       None \<Rightarrow> None
     | Some sliceId \<Rightarrow> store_filters rest (fs(sliceId \<mapsto> v)))"

text \<open>
  The body of the \<open>try\<close> block, with the exceptions it can throw. The argument of
  \<open>JSON.parse\<close> is \<open>getParam('preselect_filters') || dashboard.metadata.default_filters\<close>:
  the request parameter when it is a non-empty string, the metadata default otherwise
  (\<open>undefined\<close> reads as the text \<open>undefined\<close>).
\<close>

definition parse_filters :: "env \<Rightarrow> metadata option \<Rightarrow> error + (string \<rightharpoonup> json) option" where
  "parse_filters e md =
    seq (if getParam e ''preselect_filters'' \<noteq> [] then Inr (getParam e ''preselect_filters'')
         else case md of
                None \<Rightarrow> Inl TypeError
              | Some m \<Rightarrow> Inr (case default_filters m of None \<Rightarrow> ''undefined'' | Some s \<Rightarrow> s))
      (\<lambda>text.
    seq (case JSON_parse e text of None \<Rightarrow> Inl SyntaxError | Some v \<Rightarrow> Inr v) (\<lambda>filterData.
    Inr (store_filters (for_in filterData) Map.empty)))"

text \<open>The \<open>try\<close> statement. The \<open>catch\<close> block is empty: an exception of the body ends
  there, and \<open>filters\<close> is still \<open>{}\<close>.\<close>

definition initial_filters :: "env \<Rightarrow> metadata option \<Rightarrow> (string \<rightharpoonup> json) option" where
  "initial_filters e md = (case parse_filters e md of Inl err \<Rightarrow> Some Map.empty | Inr fs \<Rightarrow> fs)"

subsection \<open>The layout\<close>

text \<open>\<open>dashboard.posDict\<close>: every entry of \<open>position_json\<close> under its \<open>slice_id\<close>, a later
  entry replacing an earlier one; empty when \<open>position_json\<close> is missing.\<close>

definition posDict_of :: "(int \<times> pos) list option \<Rightarrow> int \<rightharpoonup> pos" where
  "posDict_of pj =
    (case pj of
       None \<Rightarrow> Map.empty
     | Some entries \<Rightarrow> fold (\<lambda>(sid, position) d. d(sid \<mapsto> position)) entries Map.empty)"

definition pos_of :: "(int \<rightharpoonup> pos) \<Rightarrow> nat \<Rightarrow> int \<Rightarrow> pos" where
  "pos_of d index sliceId =
    (case d sliceId of
       Some position \<Rightarrow> position
     | None \<Rightarrow> \<lparr> col = (int index * 4 + 1) mod 12,
                  row = (int index div 3) * 4,
                  size_x = 4,
                  size_y = 4 \<rparr>)"

definition layout_entry :: "(int \<rightharpoonup> pos) \<Rightarrow> nat \<Rightarrow> slice \<Rightarrow> layout_item" where
  "layout_entry d index s =
    (let sliceId = slice_id s;
         p = pos_of d index sliceId
     in \<lparr> l_i = show_int sliceId,
          l_x = col p - 1,
          l_y = row p,
          l_w = size_x p,
          l_minW = 2,
          l_h = size_y p \<rparr>)"

definition layout_of :: "(int \<rightharpoonup> pos) \<Rightarrow> slice list \<Rightarrow> layout_item list" where
  "layout_of d ss = map (\<lambda>(index, s). layout_entry d index s) (zip [0..<length ss] ss)"

subsection \<open>The function\<close>

definition init_chart :: "env \<Rightarrow> slice \<Rightarrow> string \<times> chart_record" where
  "init_chart e s =
    (let key = ''slice_'' @ show_int (slice_id s)
     in (key, \<lparr> chart_defaults = chart e,
                chartKey = key,
                chart_slice_id = slice_id s,
                chart_form_data = form_data s,
                chart_formData = applyDefaultFormData e (form_data s) \<rparr>))"

definition getInitialState :: "env \<Rightarrow> bootstrapData \<Rightarrow> initial_state" where
  "getInitialState e b =
    (let d = dashboard_data b;
         common1 = (common b)(''locale'' := None, ''language_pack'' := None);
         fs = initial_filters e (metadata d);
         pd = posDict_of (position_json d);
         lay = layout_of pd (slices d);
         cs = map (init_chart e) (slices d);
         ss = map (\<lambda>s. s\<lparr> formData := Some (applyDefaultFormData e (form_data s)) \<rparr>) (slices d)
     in \<lparr> initCharts = cs,
          dashboard_state =
            \<lparr> filters = fs,
              dashboard_object =
                \<lparr> slices = ss, position_json = position_json d, metadata = metadata d,
                  posDict = pd, layout = lay \<rparr>,
              userId = user_id b,
              state_datasources = datasources b,
              state_common = common1 \<rparr> \<rparr>)"

subsection \<open>A bootstrap payload for the concrete runs\<close>

text \<open>
  Five slices, 11 to 15, of which only slice 12 has an entry in \<open>position_json\<close>, and
  the metadata default \<open>{"7":{"region":["a"]}}\<close>. \<open>sample_parse\<close> stands for
  \<open>JSON.parse\<close> on the texts of the runs: it parses the metadata default and throws on
  everything else, in particular on the request parameter \<open>{bad\<close>.
\<close>

definition quoted :: "string \<Rightarrow> string" where
  "quoted s = CHR 0x22 # s @ [CHR 0x22]"

definition default_text :: string where
  "default_text = ''{'' @ quoted ''7'' @ '':{'' @ quoted ''region'' @ '':['' @ quoted ''a'' @ '']}}''"

definition default_value :: json where
  "default_value = JObj [(''7'', JObj [(''region'', JArr [JStr ''a''])])]"

definition sample_parse :: "string \<Rightarrow> json option" where
  "sample_parse s = (if s = default_text then Some default_value else None)"

definition sample_env :: "string \<Rightarrow> env" where
  "sample_env preselect =
    \<lparr> getParam = (\<lambda>p. if p = ''preselect_filters'' then preselect else []),
      JSON_parse = sample_parse,
      applyDefaultFormData = (\<lambda>form_data. form_data),
      chart = JNull \<rparr>"

definition sample_bootstrap :: bootstrapData where
  "sample_bootstrap =
    \<lparr> user_id = JNum 1,
      datasources = JObj [],
      common = [''locale'' \<mapsto> JStr ''en''],
      dashboard_data =
        \<lparr> slices = map (\<lambda>n. \<lparr> slice_id = n, form_data = JObj [], formData = None \<rparr>)
                     [11, 12, 13, 14, 15],
          position_json = Some [(12, \<lparr> col = 1, row = 0, size_x = 6, size_y = 2 \<rparr>)],
          metadata = Some \<lparr> default_filters = Some default_text \<rparr> \<rparr> \<rparr>"

section \<open>Properties of the registry\<close>

lemma not_inherited_proto: "inherited k = None \<Longrightarrow> k \<noteq> ''__proto__''"
  by (auto simp: inherited_def Object_prototype_def)

lemma inherited_truthy:
  "inherited key = Some member \<Longrightarrow> truthy member \<and> member \<noteq> VNull \<and> member \<noteq> VUndefined"
  by (auto simp: inherited_def Object_prototype_def split: if_splits)

lemma register_ok:
  "inherited key = None \<Longrightarrow>
   register r key v =
     Inr (r\<lparr> items := (items r)(key \<mapsto> v), promises := (promises r)(key := None) \<rparr>)"
  by (auto simp: register_def prop_set_def prop_delete_def dest: not_inherited_proto)

lemma get_registered:
  "inherited key = None \<Longrightarrow>
   get (r\<lparr> items := (items r)(key \<mapsto> v), promises := ps \<rparr>) key = (if truthy v then v else VNull)"
  by (simp add: get_def prop_get_def)

lemma getAsPromise_unmemoized:
  assumes "inherited key = None" "promises r key = None"
  shows "getAsPromise r key h =
     (if truthy (get r key)
      then Inr (VRef (length h), r\<lparr> promises := (promises r)(key \<mapsto> VRef (length h)) \<rparr>,
                h @ [Promise (Resolved (get r key))])
      else Inr (VRef (length h), r, h @ [Promise (Rejected (VStr (not_registered key)))]))"
  using assms not_inherited_proto [OF assms(1)]
  by (auto simp: getAsPromise_def prop_get_def alloc_def prop_set_def Let_def get_def)

text \<open>
  C3. After \<open>register(k, v)\<close>, \<open>get(k)\<close> returns \<open>v\<close> and \<open>getAsPromise(k)\<close> a new
  future resolved with \<open>v\<close> exactly when \<open>v\<close> is truthy. For a falsy \<open>v\<close> (\<open>0\<close>, the
  empty string, \<open>false\<close>, \<open>NaN\<close>) \<open>get\<close> returns \<open>null\<close> and the future is rejected
  as not registered, so the claim fails for those values. The key is any name that
  \<open>Object.prototype\<close> does not define.
\<close>

theorem register_then_get:
  assumes "inherited key = None"
  shows "\<exists>r'. register r key v = Inr r' \<and>
          get r' key = (if truthy v then v else VNull) \<and>
          getAsPromise r' key h =
            (if truthy v
             then Inr (VRef (length h), r'\<lparr> promises := (promises r')(key \<mapsto> VRef (length h)) \<rparr>,
                       h @ [Promise (Resolved v)])
             else Inr (VRef (length h), r', h @ [Promise (Rejected (VStr (not_registered key)))]))"
  using assms
  by (simp add: register_ok get_registered getAsPromise_unmemoized)

theorem register_then_get_zero:
  "\<exists>r'. register (Registry_constructor ''schemes'') ''k'' (VNum 0) = Inr r' \<and>
        get r' ''k'' = VNull \<and>
        getAsPromise r' ''k'' [] =
          Inr (VRef 0, r', [Promise (Rejected (VStr (not_registered ''k'')))])"
proof -
  have "inherited ''k'' = None"
    by (simp add: inherited_def Object_prototype_def)
  from register_then_get [OF this, of "Registry_constructor ''schemes''" "VNum 0" "[]"]
  show ?thesis by simp
qed

text \<open>
  C5. After \<open>register(k, v)\<close>, \<open>getAsPromise(k)\<close> and \<open>register(k, v2)\<close> no future is
  memoized for \<open>k\<close>, and the next \<open>getAsPromise(k)\<close> returns a future that was not
  handed out before: resolved with \<open>v2\<close> when \<open>v2\<close> is truthy, rejected as not
  registered when \<open>v2\<close> is falsy, where the claim fails.
\<close>

theorem reregister_getAsPromise:
  assumes "inherited key = None"
  shows "\<exists>r1 p1 r2 h1 r3.
          register r key v = Inr r1 \<and>
          getAsPromise r1 key h = Inr (p1, r2, h1) \<and>
          register r2 key v2 = Inr r3 \<and>
          promises r3 key = None \<and>
          p1 \<noteq> VRef (length h1) \<and>
          getAsPromise r3 key h1 =
            (if truthy v2
             then Inr (VRef (length h1), r3\<lparr> promises := (promises r3)(key \<mapsto> VRef (length h1)) \<rparr>,
                       h1 @ [Promise (Resolved v2)])
             else Inr (VRef (length h1), r3,
                       h1 @ [Promise (Rejected (VStr (not_registered key)))]))"
  using assms
  by (simp add: register_ok get_registered getAsPromise_unmemoized)

theorem reregister_getAsPromise_zero:
  "\<exists>r1 p1 r2 h1 r3.
     register (Registry_constructor ''schemes'') ''k'' (VNum 1) = Inr r1 \<and>
     getAsPromise r1 ''k'' [] = Inr (p1, r2, h1) \<and>
     register r2 ''k'' (VNum 0) = Inr r3 \<and>
     getAsPromise r3 ''k'' h1 =
       Inr (VRef (length h1), r3, h1 @ [Promise (Rejected (VStr (not_registered ''k'')))])"
proof -
  have "inherited ''k'' = None"
    by (simp add: inherited_def Object_prototype_def)
  from reregister_getAsPromise
    [OF this, of "Registry_constructor ''schemes''" "VNum 1" "[]" "VNum 0"]
  show ?thesis by auto
qed

text \<open>A key that no call registers has no own entry in \<open>items\<close> or \<open>promises\<close>.\<close>

lemma perform_keeps_unregistered:
  assumes "perform c (r, h) = Inr (r', h')" "\<not> registers key c"
    and "items r key = None" "promises r key = None"
  shows "items r' key = None \<and> promises r' key = None"
proof (cases c)
  case (Register k v)
  with assms show ?thesis
    by (auto simp: register_def prop_set_def prop_delete_def split: sum.splits if_splits)
next
  case (GetAsPromise k)
  with assms show ?thesis
    by (auto simp: getAsPromise_def prop_set_def alloc_def Let_def prop_get_def get_def
             split: sum.splits if_splits option.splits dest: inherited_truthy)
qed (use assms in auto)

lemma perform_all_keeps_unregistered:
  assumes "perform_all cs s = Inr s'" "\<not> list_ex (registers key) cs"
    and "items (fst s) key = None" "promises (fst s) key = None"
  shows "items (fst s') key = None \<and> promises (fst s') key = None"
  using assms
proof (induction cs arbitrary: s)
  case Nil
  then show ?case by simp
next
  case (Cons c cs)
  from Cons.prems(1) obtain s1 where s1: "perform c s = Inr s1" "perform_all cs s1 = Inr s'"
    by (auto split: sum.splits)
  obtain r h where s: "s = (r, h)" by (cases s)
  obtain r1 h1 where s1': "s1 = (r1, h1)" by (cases s1)
  from perform_keeps_unregistered [of c r h r1 h1 key] s1(1) Cons.prems s s1'
  have "items r1 key = None \<and> promises r1 key = None" by simp
  with Cons.IH [OF s1(2)] Cons.prems(2) s1' show ?case by simp
qed

text \<open>
  C6. On a registry on which \<open>register\<close> was never called with \<open>k\<close>: when \<open>k\<close> is not
  a name of \<open>Object.prototype\<close>, \<open>get(k)\<close> is \<open>null\<close>, \<open>has(k)\<close> is false and
  \<open>getAsPromise(k)\<close> is a new future rejected with the message naming \<open>k\<close>, and none
  of them throws. When \<open>k\<close> is such a name (\<open>constructor\<close>, \<open>toString\<close>, ...), the member
  that \<open>items\<close> and \<open>promises\<close> inherit is found instead: \<open>has(k)\<close> is true, \<open>get(k)\<close>
  and \<open>getAsPromise(k)\<close> return the inherited member, and the claim fails.
\<close>

theorem never_registered:
  assumes "perform_all cs (Registry_constructor n, h0) = Inr (r, h)"
    and "\<not> list_ex (registers key) cs"
  shows "get r key = (case inherited key of Some member \<Rightarrow> member | None \<Rightarrow> VNull) \<and>
         has r key = (inherited key \<noteq> None) \<and>
         getAsPromise r key h =
           (case inherited key of
              Some member \<Rightarrow> Inr (member, r, h)
            | None \<Rightarrow> Inr (VRef (length h), r,
                           h @ [Promise (Rejected (VStr (not_registered key)))]))"
proof -
  from perform_all_keeps_unregistered [OF assms]
  have none: "items r key = None" "promises r key = None"
    by (simp_all add: Registry_constructor_def)
  show ?thesis
    using none
    by (auto simp: get_def has_def prop_get_def getAsPromise_def alloc_def Let_def
             split: option.splits dest: inherited_truthy)
qed

theorem never_registered_constructor:
  "\<exists>r h. perform_all [Register ''a'' (VNum 1), GetAsPromise ''a'']
            (Registry_constructor ''schemes'', []) = Inr (r, h) \<and>
     get r ''constructor'' = VBuiltin ''Object'' \<and>
     has r ''constructor'' \<and>
     getAsPromise r ''constructor'' h = Inr (VBuiltin ''Object'', r, h)"
proof -
  have a: "inherited ''a'' = None"
    by (simp add: inherited_def Object_prototype_def)
  have c: "inherited ''constructor'' = Some (VBuiltin ''Object'')"
    by (simp add: inherited_def Object_prototype_def)
  obtain r h where run:
    "perform_all [Register ''a'' (VNum 1), GetAsPromise ''a'']
       (Registry_constructor ''schemes'', []) = Inr (r, h)"
    by (simp add: register_ok [OF a] getAsPromise_unmemoized [OF a] get_registered [OF a])
  have "\<not> list_ex (registers ''constructor'') [Register ''a'' (VNum 1), GetAsPromise ''a'']"
    by simp
  from never_registered [OF run this] c run show ?thesis
    by auto
qed

text \<open>
  C9. After \<open>register(k, v)\<close>, \<open>has(k)\<close> is true while \<open>get(k)\<close> is \<open>null\<close> exactly when
  \<open>v\<close> is falsy and neither \<open>null\<close> nor \<open>undefined\<close>. For a falsy \<open>v\<close>, \<open>getAsPromise(k)\<close>
  returns a new rejected future when \<open>k\<close> is not a name of \<open>Object.prototype\<close>. When
  \<open>k\<close> is such a name (\<open>toString\<close>, \<open>constructor\<close>, ...), \<open>register\<close> has deleted the own
  property of \<open>promises\<close> and the lookup \<open>this.promises[k]\<close> finds the inherited member:
  \<open>getAsPromise(k)\<close> returns that member, which is no future, and the claim fails.
\<close>

theorem registry_falsy_value:
  assumes "key \<noteq> ''__proto__''"
  shows "\<exists>r'. register r key v = Inr r' \<and>
          ((has r' key \<and> get r' key = VNull) = (\<not> truthy v \<and> v \<noteq> VNull \<and> v \<noteq> VUndefined)) \<and>
          (if truthy v then True
           else getAsPromise r' key h =
                  (case inherited key of
                     Some member \<Rightarrow> Inr (member, r', h)
                   | None \<Rightarrow> Inr (VRef (length h), r',
                                  h @ [Promise (Rejected (VStr (not_registered key)))])))"
  using assms
  by (cases v)
     (auto simp: register_def prop_set_def prop_delete_def has_def get_def prop_get_def
         getAsPromise_def alloc_def Let_def split: option.splits dest: inherited_truthy)

theorem registry_falsy_value_toString:
  "\<exists>r'. register (Registry_constructor ''schemes'') ''toString'' (VNum 0) = Inr r' \<and>
        has r' ''toString'' \<and> get r' ''toString'' = VNull \<and>
        getAsPromise r' ''toString'' [] = Inr (VBuiltin ''Object.prototype.toString'', r', [])"
proof -
  have "''toString'' \<noteq> ''__proto__''" by simp
  moreover have "inherited ''toString'' = Some (VBuiltin ''Object.prototype.toString'')"
    by (simp add: inherited_def Object_prototype_def)
  ultimately show ?thesis
    using registry_falsy_value [of "''toString''" "Registry_constructor ''schemes''" "VNum 0" "[]"]
    by auto
qed

text \<open>For a key that \<open>Object.prototype\<close> does not define, the empty string is
  registered, \<open>has\<close> is true, \<open>get\<close> is \<open>null\<close> and \<open>getAsPromise\<close> is a new rejected
  future.\<close>

lemma empty_string_registered:
  "\<exists>r'. register (Registry_constructor ''schemes'') ''k'' (VStr []) = Inr r' \<and>
        has r' ''k'' \<and> get r' ''k'' = VNull \<and>
        getAsPromise r' ''k'' [] =
          Inr (VRef 0, r', [Promise (Rejected (VStr (not_registered ''k'')))])"
  by (simp add: register_def prop_set_def prop_delete_def Registry_constructor_def has_def get_def
       prop_get_def getAsPromise_def inherited_def Object_prototype_def alloc_def)

section \<open>Decimal property names\<close>

text \<open>The digits of \<open>String(n)\<close> read back as \<open>n\<close>, so different numbers have different
  names.\<close>

lemma digit_value_digit: "d < 10 \<Longrightarrow> digit_value (digit d) = d"
proof -
  assume "d < 10"
  then have "d \<in> {0,1,2,3,4,5,6,7,8,9}" by auto
  then show ?thesis by (auto simp: digit_value_def digit_def)
qed

lemma digits_value_snoc: "digits_value (ds @ [c]) = digits_value ds * 10 + digit_value c"
  by (simp add: digits_value_def)

lemma digits_value_show_nat: "digits_value (show_nat n) = n"
proof (induction n rule: show_nat.induct)
  case (1 n)
  show ?case
  proof (cases "n < 10")
    case True
    then show ?thesis
      by (subst show_nat.simps) (simp add: digits_value_def digit_value_digit)
  next
    case False
    with 1 show ?thesis
      by (subst show_nat.simps) (simp add: digits_value_snoc digit_value_digit)
  qed
qed


section \<open>Properties of the dashboard reducer\<close>

lemmas run_defs =
  dashboard_def seq_def prop_get_def own_handler_def actionHandlers_def action_types_def
  inherited_def Object_prototype_def call_inherited_def run_handler_def get_prop_def deref_def
  array_method_def indexOf_found_def array_get_def array_in_def array_set_def array_index_def
  Array_prototype_def later_Array_members_def
  strict_eq_def Object_assign_def own_enumerable_def assign_def has_in_def prop_in_def
  show_int_def show_nat.simps digit_def alloc_def Let_def array_includes_def instanceof_Array_def
  prop_delete_def prop_set_def set_prop_def filtered_dashboard_def filter_action_def

lemmas add_filter_defs =
  run_defs handle_ADD_FILTER_def filterable_def filterKeys_def newFilter_of_def d3_merge_def
  array_like_def

subsection \<open>Basic facts about the heap operations\<close>


lemma deref_append:
  "deref (h @ [x]) a = (if a < length h then deref h a else if a = length h then Some x else None)"
  by (auto simp: deref_def nth_append)


lemma deref_Some_less: "deref h a = Some x \<Longrightarrow> a < length h"
  by (auto simp: deref_def split: if_splits)

lemma Object_assign_lit:
  assumes "lit ''__proto__'' = None"
  shows "Object_assign h v lit = Inr ps \<longleftrightarrow>
         (\<exists>src. own_enumerable h v = Inr src \<and> src ''__proto__'' = None \<and> ps = src ++ lit)"
  using assms
  by (cases "own_enumerable h v") (auto simp: Object_assign_def seq_def assign_def)

subsection \<open>Unrecognized action types\<close>

lemma call_inherited_not_state:
  "inherited ty = Some member \<Longrightarrow> call_inherited acts h ty \<noteq> Inr (VRef a, h)"
  by (auto simp: call_inherited_def alloc_def split: option.splits)

text \<open>
  C4. For a state that is an object and an action whose type is not a key of the
  handler table, the reducer returns the state itself, and leaves the heap as it is,
  exactly when the type is not the name of a member of \<open>Object.prototype\<close>. The test
  \<open>action.type in actionHandlers\<close> is also true for \<open>toString\<close>, \<open>constructor\<close>,
  \<open>valueOf\<close>, ...; the inherited member is then called and its result returned, so
  the claim fails for those type strings.
\<close>

theorem unrecognized_type:
  assumes "to_key (prop_get action ''type'') = Inr ty"
    and "own_handler acts ty = None"
  shows "(dashboard acts utils h (VRef a) action = Inr (VRef a, h)) = (inherited ty = None)"
  using assms
  by (auto simp: dashboard_def seq_def call_inherited_not_state split: option.splits)

theorem unrecognized_type_toString:
  "dashboard action_types no_utils filtered_dashboard (VRef 8) [''type'' \<mapsto> VStr ''toString'']
     \<noteq> Inr (VRef 8, filtered_dashboard) \<and>
   dashboard action_types no_utils filtered_dashboard (VRef 8) [''type'' \<mapsto> VStr ''toString'']
     = Inr (VStr ''[object Object]'', filtered_dashboard)"
proof -
  let ?run = "dashboard action_types no_utils filtered_dashboard (VRef 8)
                [''type'' \<mapsto> VStr ''toString'']"
  have ty: "to_key (prop_get [''type'' \<mapsto> VStr ''toString''] ''type'') = Inr ''toString''"
    by (simp add: prop_get_def)
  have own: "own_handler action_types ''toString'' = None"
    by (simp add: own_handler_def actionHandlers_def action_types_def)
  have inh: "inherited ''toString'' \<noteq> None"
    by (simp add: inherited_def Object_prototype_def)
  from unrecognized_type [OF ty own, of no_utils filtered_dashboard 8] inh
  have "?run \<noteq> Inr (VRef 8, filtered_dashboard)" by simp
  moreover have "?run = Inr (VStr ''[object Object]'', filtered_dashboard)"
    by (simp add: dashboard_def seq_def prop_get_def own_handler_def actionHandlers_def
          action_types_def inherited_def Object_prototype_def call_inherited_def)
  ultimately show ?thesis by simp
qed

subsection \<open>Adding a filter\<close>

text \<open>
  C1. On the dashboard whose slice 1 is grouped by \<open>region\<close> and filtered on
  \<open>region: ['a']\<close>, the action
  \<open>{ type: ADD_FILTER, sliceId: 1, col: 'region', vals: ['b'], merge: true }\<close> returns a
  state in which \<open>filters[1]\<close> is the merged list \<open>['a', 'b']\<close> itself: the merge
  branches assign the list to \<open>newFilter\<close>, which replaces the whole entry of the
  slice, not its column \<open>region\<close>. The claim, which has \<open>filters[1].region\<close> equal to
  \<open>['a', 'b']\<close>, fails.
\<close>

theorem add_filter_merge_array:
  "case dashboard action_types no_utils filtered_dashboard (VRef 8) (filter_action ''ADD_FILTER'') of
     Inr (VRef r, h') \<Rightarrow>
       (case get_prop h' (VRef r) ''filters'' of
          Inr fs \<Rightarrow>
            (case get_prop h' fs ''1'' of
               Inr (VRef e) \<Rightarrow> deref h' e = Some (Arr [VStr ''a'', VStr ''b''])
             | _ \<Rightarrow> False)
        | _ \<Rightarrow> False)
   | _ \<Rightarrow> False"
  by (simp add: add_filter_defs)

text \<open>With a scalar in place of the list, \<open>filters: { 1: { region: 'x' } }\<close>, the same
  action leaves the scalar itself as the entry of the slice: \<open>filters[1]\<close> is \<open>'x'\<close>
  and the new values are dropped.\<close>

lemma add_filter_merge_scalar:
  "case dashboard action_types no_utils
          (filtered_dashboard[6 := Obj [''region'' \<mapsto> VStr ''x'']]) (VRef 8)
          (filter_action ''ADD_FILTER'') of
     Inr (VRef r, h') \<Rightarrow>
       (case get_prop h' (VRef r) ''filters'' of
          Inr fs \<Rightarrow> get_prop h' fs ''1'' = Inr (VStr ''x'')
        | _ \<Rightarrow> False)
   | _ \<Rightarrow> False"
  by (simp add: add_filter_defs)

text \<open>With \<open>merge: false\<close> the entry of the slice is an object that maps \<open>region\<close> to the
  action's \<open>vals\<close>, as the claim says.\<close>

lemma add_filter_replace:
  "case dashboard action_types no_utils filtered_dashboard (VRef 8)
          ((filter_action ''ADD_FILTER'')(''merge'' \<mapsto> VBool False)) of
     Inr (VRef r, h') \<Rightarrow>
       (case get_prop h' (VRef r) ''filters'' of
          Inr fs \<Rightarrow>
            (case get_prop h' fs ''1'' of
               Inr e \<Rightarrow> get_prop h' e ''region'' = Inr (VRef 9)
             | _ \<Rightarrow> False)
        | _ \<Rightarrow> False)
   | _ \<Rightarrow> False"
  by (simp add: add_filter_defs)

text \<open>
  The three branches in general, for an entry \<open>filters[sliceId]\<close> that is a plain
  object. Without a value for the column, or with a falsy \<open>merge\<close>, \<open>newFilter\<close> is a
  copy of the entry with the column set to \<open>vals\<close>. With a list under the column and a
  list of new values, \<open>newFilter\<close> is the concatenation itself; with a scalar under
  the column it is that scalar, or the empty string when the scalar is falsy. The
  handler stores \<open>newFilter\<close> as \<open>filters[sliceId]\<close> in all three.
\<close>

lemma newFilter_of_replace:
  assumes "deref h e = Some (Obj ep)" "ep ''__proto__'' = None"
    and "to_key c = Inr ck" "ck \<noteq> ''__proto__''"
    and "\<not> prop_in ck ep \<or> \<not> truthy merge"
  shows "newFilter_of h (VRef e) c vals merge =
           Inr (VRef (length h), h @ [Obj (ep(ck \<mapsto> vals))])"
  using assms
  by (auto simp: newFilter_of_def seq_def has_in_def Object_assign_def own_enumerable_def
        assign_def alloc_def)

lemma newFilter_of_merge_array:
  assumes "deref h e = Some (Obj ep)"
    and "to_key c = Inr ck" "ep ck = Some (VRef old)" "deref h old = Some (Arr olds)"
    and "truthy merge" "deref h v = Some (Arr news)"
  shows "newFilter_of h (VRef e) c (VRef v) merge =
           Inr (VRef (length h), h @ [Arr (olds @ news)])"
  using assms
  by (simp add: newFilter_of_def seq_def has_in_def prop_in_def get_prop_def prop_get_def
        instanceof_Array_def d3_merge_def array_like_def alloc_def)

lemma newFilter_of_merge_scalar:
  assumes "deref h e = Some (Obj ep)"
    and "to_key c = Inr ck" "ep ck = Some old" "\<not> instanceof_Array h old"
    and "truthy merge" "deref h v = Some (Arr news)"
  shows "\<exists>h'. newFilter_of h (VRef e) c (VRef v) merge =
           Inr (if truthy old then old else VStr [], h')"
proof -
  from assms(6) have v: "v < length h" by (rule deref_Some_less)
  with assms(6) have "deref (h @ [Arr [old]]) v = Some (Arr news)"
    by (simp add: deref_append)
  with assms show ?thesis
    by (simp add: newFilter_of_def seq_def has_in_def prop_in_def get_prop_def prop_get_def
          d3_merge_def array_like_def alloc_def deref_append)
qed

subsection \<open>Clearing and removing filters\<close>




text \<open>Reads of an object of the heap are not affected when the heap grows.\<close>

lemma deref_append_Some: "deref h a = Some ob \<Longrightarrow> deref (h @ xs) a = Some ob"
  by (auto simp: deref_def nth_append split: if_splits)














text \<open>The two uses of \<open>Object.assign\<close> in the handlers: the shallow copy
  \<open>Object.assign({}, state.filters)\<close> and the last statement
  \<open>Object.assign({}, state, { filter: newFilters, refresh: true })\<close>.\<close>

lemma Object_assign_empty:
  "Object_assign h v Map.empty = Inr ps \<longleftrightarrow> own_enumerable h v = Inr ps \<and> ps ''__proto__'' = None"
  by (cases "own_enumerable h v") (auto simp: Object_assign_def seq_def assign_def)

lemma Object_assign_final:
  "Object_assign h v [''filter'' \<mapsto> nf, ''refresh'' \<mapsto> VBool True] = Inr ps \<longleftrightarrow>
   (\<exists>src. own_enumerable h v = Inr src \<and> src ''__proto__'' = None \<and>
      ps = src ++ [''filter'' \<mapsto> nf, ''refresh'' \<mapsto> VBool True])"
  by (rule Object_assign_lit) simp

lemma own_enumerable_Obj: "deref h a = Some (Obj ps) \<Longrightarrow> own_enumerable h (VRef a) = Inr ps"
  by (simp add: own_enumerable_def)

lemma get_prop_Obj: "deref h a = Some (Obj ps) \<Longrightarrow> get_prop h (VRef a) k = Inr (prop_get ps k)"
  by (simp add: get_prop_def)





















text \<open>On the example, \<open>CLEAR_FILTER\<close> for slice 1 stores an empty mapping under
  \<open>filter\<close>, while \<open>filters\<close> still refers to the mapping with the entry of slice 1.\<close>

lemma clear_filter_example:
  "case dashboard action_types no_utils filtered_dashboard (VRef 8)
          (filter_action ''CLEAR_FILTER'') of
     Inr (r, h') \<Rightarrow>
       get_prop h' r ''filters'' = Inr (VRef 7) \<and>
       deref h' 7 = Some (Obj [''1'' \<mapsto> VRef 6]) \<and>
       get_prop h' r ''filter'' = Inr (VRef 10) \<and>
       deref h' 10 = Some (Obj Map.empty) \<and>
       get_prop h' r ''refresh'' = Inr (VBool True)
   | _ \<Rightarrow> False"
  by (simp add: run_defs handle_CLEAR_FILTER_def)

text \<open>\<open>CLEAR_FILTER\<close> returns for every state object whose \<open>filters\<close> is a plain object
  or missing, when the slice id is a primitive.\<close>

lemma clear_filter_returns:
  assumes "deref h a = Some (Obj sp)" "sp ''__proto__'' = None"
    and "case prop_get sp ''filters'' of
           VRef f \<Rightarrow> (case deref h f of Some (Obj fp) \<Rightarrow> fp ''__proto__'' = None | _ \<Rightarrow> False)
         | VUndefined \<Rightarrow> True
         | _ \<Rightarrow> False"
    and "to_key (prop_get action ''sliceId'') = Inr sk"
  shows "\<exists>r h'. handle_CLEAR_FILTER h (VRef a) action = Inr (r, h')"
proof -
  from assms(3) obtain copied where
    cp: "Object_assign h (prop_get sp ''filters'') Map.empty = Inr copied"
    by (auto simp: Object_assign_empty own_enumerable_def
             split: jsval.splits option.splits obj.splits)
  let ?h1 = "h @ [Obj (prop_delete copied sk)]"
  from assms(1) have "own_enumerable ?h1 (VRef a) = Inr sp"
    by (simp add: own_enumerable_Obj deref_append_Some)
  with assms(2) have "\<exists>ns. Object_assign ?h1 (VRef a)
      [''filter'' \<mapsto> VRef (length h), ''refresh'' \<mapsto> VBool True] = Inr ns"
    by (simp add: Object_assign_final)
  with assms(1,4) cp show ?thesis
    by (auto simp: handle_CLEAR_FILTER_def seq_def get_prop_Obj alloc_def)
qed

text \<open>\<open>REMOVE_FILTER\<close> returns on the states that \<open>ADD_FILTER\<close> builds without merging:
  the entry of the slice is a plain object whose column holds a list, and the action
  brings a list of values.\<close>

lemma remaining_array:
  "deref h va = Some (Arr vs) \<Longrightarrow>
   remaining h (VRef va) xs = Inr (filter (\<lambda>v. \<not> array_includes vs v) xs)"
  by (induction xs) (simp_all add: indexOf_found_def array_method_def seq_def)

lemma remove_filter_returns:
  assumes st: "deref h a = Some (Obj sp)" "sp ''__proto__'' = None"
    and fs: "prop_get sp ''filters'' = VRef f" "deref h f = Some (Obj fp)" "fp ''__proto__'' = None"
    and keys: "to_key (prop_get action ''sliceId'') = Inr sk"
      "to_key (prop_get action ''col'') = Inr ck"
    and entry: "fp sk = Some (VRef ea)" "deref h ea = Some (Obj ep)"
    and column: "ep ck = Some (VRef oa)" "deref h oa = Some (Arr xs)"
    and vals: "prop_get action ''vals'' = VRef va" "deref h va = Some (Arr vs)"
  shows "\<exists>r h'. handle_REMOVE_FILTER h (VRef a) action = Inr (r, h')"
proof -
  let ?h1 = "h @ [Obj fp]"
  let ?kept = "filter (\<lambda>v. \<not> array_includes vs v) xs"
  let ?h2 = "(?h1 @ [Arr ?kept])[ea := Obj (ep(ck \<mapsto> VRef (length ?h1)))]"
  have cp: "Object_assign h (VRef f) Map.empty = Inr fp"
    using fs by (simp add: Object_assign_empty own_enumerable_Obj)
  have d1: "deref ?h1 f = Some (Obj fp)" "deref ?h1 ea = Some (Obj ep)"
    "deref ?h1 oa = Some (Arr xs)" "deref ?h1 va = Some (Arr vs)"
    using fs entry column vals by (simp_all add: deref_append_Some)
  have e: "prop_get fp sk = VRef ea" "prop_get ep ck = VRef oa" "prop_in sk fp" "prop_in ck ep"
    using entry column by (simp_all add: prop_get_def prop_in_def)
  have rv: "remove_values ?h1 (VRef f) fp (prop_get action ''sliceId'')
              (prop_get action ''col'') (prop_get action ''vals'') = Inr ?h2"
    using d1 e keys vals column(1) entry(2)
    by (simp add: remove_values_def has_in_def get_prop_def seq_def array_method_def
          remaining_array alloc_def set_prop_def prop_set_def deref_append_Some)
  from st(1) have a: "a < length h" by (rule deref_Some_less)
  have "\<exists>sp2. deref ?h2 a = Some (Obj sp2) \<and> sp2 ''__proto__'' = None"
  proof (cases "a = ea")
    case True
    with st entry(2) column(1) have "ck \<noteq> ''__proto__''" by auto
    with True st entry(2) a show ?thesis by (simp add: deref_def)
  next
    case False
    with st a show ?thesis by (simp add: deref_def nth_append)
  qed
  then obtain sp2 where "own_enumerable ?h2 (VRef a) = Inr sp2" "sp2 ''__proto__'' = None"
    by (auto simp: own_enumerable_Obj)
  then have "\<exists>ns. Object_assign ?h2 (VRef a)
      [''filter'' \<mapsto> VRef (length h), ''refresh'' \<mapsto> VBool True] = Inr ns"
    by (simp add: Object_assign_final)
  with st(1) fs(1) cp rv show ?thesis
    by (auto simp: handle_REMOVE_FILTER_def seq_def get_prop_Obj alloc_def)
qed

text \<open>
  After the merge of \<open>ADD_FILTER\<close> has left the list \<open>['a', 'b']\<close> as the entry of slice 1,
  \<open>REMOVE_FILTER\<close> for the column \<open>region\<close> returns and removes nothing: \<open>'region' in
  ['a', 'b']\<close> is false, so \<open>filter\<close> is a copy whose entry for slice 1 is still that
  list.
\<close>

lemma remove_filter_after_merge:
  "case dashboard action_types no_utils filtered_dashboard (VRef 8) (filter_action ''ADD_FILTER'') of
     Inr (s1, h1) \<Rightarrow>
       (case dashboard action_types no_utils h1 s1 (filter_action ''REMOVE_FILTER'') of
          Inr (s2, h2) \<Rightarrow>
            get_prop h2 s2 ''filters'' = get_prop h1 s1 ''filters'' \<and>
            get_prop h2 s2 ''refresh'' = Inr (VBool True) \<and>
            (case get_prop h2 s2 ''filter'' of
               Inr nf \<Rightarrow>
                 (case get_prop h2 nf ''1'' of
                    Inr (VRef e) \<Rightarrow> deref h2 e = Some (Arr [VStr ''a'', VStr ''b''])
                  | _ \<Rightarrow> False)
             | _ \<Rightarrow> False)
        | Inl err \<Rightarrow> False)
   | Inl err \<Rightarrow> False"
  by (simp add: add_filter_defs handle_REMOVE_FILTER_def remove_values_def)

section \<open>Properties of the composite store\<close>

text \<open>A composite of any sub-reducers returns the root state itself when every
  sub-reducer returns the slice it was given and leaves the heap alone.\<close>

lemma combination_unchanged:
  assumes "list_all (\<lambda>(key, reducer).
             case get_prop h state key of
               Inl e \<Rightarrow> False
             | Inr v \<Rightarrow> reducer h v action = Inr (v, h) \<and> strict_eq v v) rs"
  shows "\<exists>ns'. combination rs h state action ns changed = Inr (ns', changed, h)"
  using assms
proof (induction rs arbitrary: ns)
  case Nil
  then show ?case by simp
next
  case (Cons kr rs)
  obtain key reducer where kr: "kr = (key, reducer)" by (cases kr)
  from Cons.prems kr obtain v where
    v: "get_prop h state key = Inr v" "reducer h v action = Inr (v, h)" "strict_eq v v"
    by (auto split: sum.splits)
  from Cons.prems have "list_all (\<lambda>(key, reducer).
             case get_prop h state key of
               Inl e \<Rightarrow> False
             | Inr v \<Rightarrow> reducer h v action = Inr (v, h) \<and> strict_eq v v) rs" by simp
  from Cons.IH [OF this] v kr show ?case
    by (auto simp: seq_def)
qed

lemma combineReducers_unchanged:
  assumes "list_all (\<lambda>(key, reducer).
             case get_prop h state key of
               Inl e \<Rightarrow> False
             | Inr v \<Rightarrow> reducer h v action = Inr (v, h) \<and> strict_eq v v) rs"
  shows "combineReducers rs h state action = Inr (state, h)"
  using combination_unchanged [OF assms, of Map.empty False]
  by (auto simp: combineReducers_def seq_def)

text \<open>
  C8. When the \<open>charts\<close> reducer, run on \<open>state.charts\<close>, and the \<open>dashboard\<close> reducer,
  run after it on \<open>state.dashboard\<close>, each return the slice they were given (\<open>===\<close>),
  the combined reducer returns the root state itself, the same reference, and
  allocates no new root object.
\<close>

theorem rootReducer_unchanged:
  assumes "get_prop h state ''charts'' = Inr c"
    and "chartsReducer h c action = Inr (c', h1)"
    and "strict_eq c' c"
    and "get_prop h1 state ''dashboard'' = Inr d"
    and "dashboard acts utils h1 d action = Inr (d', h2)"
    and "strict_eq d' d"
  shows "rootReducer acts utils chartsReducer h state action = Inr (state, h2)"
  using assms
  by (simp add: rootReducer_def combineReducers_def seq_def)

theorem rootReducer_unchanged_example:
  "rootReducer action_types no_utils idle_charts root_heap (VRef 10)
     [''type'' \<mapsto> VStr ''@@redux/INIT''] = Inr (VRef 10, root_heap)"
proof -
  let ?a = "[''type'' \<mapsto> VStr ''@@redux/INIT'']"
  have c: "get_prop root_heap (VRef 10) ''charts'' = Inr (VRef 0)"
    by (simp add: root_heap_def get_prop_def deref_def filtered_dashboard_def prop_get_def)
  have d: "get_prop root_heap (VRef 10) ''dashboard'' = Inr (VRef 8)"
    by (simp add: root_heap_def get_prop_def deref_def filtered_dashboard_def prop_get_def)
  have cr: "idle_charts root_heap (VRef 0) ?a = Inr (VRef 0, root_heap)"
    by (simp add: idle_charts_def)
  have dr: "dashboard action_types no_utils root_heap (VRef 8) ?a = Inr (VRef 8, root_heap)"
    by (simp add: dashboard_def seq_def prop_get_def own_handler_def actionHandlers_def
          action_types_def inherited_def Object_prototype_def)
  have e0: "strict_eq (VRef 0) (VRef 0)" and e8: "strict_eq (VRef 8) (VRef 8)"
    by (simp_all add: strict_eq_def)
  from rootReducer_unchanged [of root_heap "VRef 10" "VRef 0" idle_charts ?a "VRef 0" root_heap
      "VRef 8" action_types no_utils "VRef 8" root_heap, OF c cr e0 d dr e8]
  show ?thesis .
qed

text \<open>When a sub-reducer returns a different slice, the result is a new root object:
  here the \<open>dashboard\<close> reducer handles \<open>TOGGLE_FAVE_STAR\<close>.\<close>

lemma rootReducer_changed_example:
  "case rootReducer action_types no_utils idle_charts root_heap (VRef 10)
          [''type'' \<mapsto> VStr ''TOGGLE_FAVE_STAR'', ''isStarred'' \<mapsto> VBool True] of
     Inr (r, h') \<Rightarrow> r = VRef 12 \<and> get_prop h' r ''charts'' = Inr (VRef 0) \<and>
                    get_prop h' r ''dashboard'' = Inr (VRef 11)
   | Inl e \<Rightarrow> False"
  by (simp add: rootReducer_def combineReducers_def idle_charts_def root_heap_def run_defs
        handle_TOGGLE_FAVE_STAR_def)

section \<open>Properties of the initial state\<close>

subsection \<open>The layout\<close>

lemma layout_of_nth:
  "i < length ss \<Longrightarrow> layout_of d ss ! i = layout_entry d i (ss ! i)"
  by (simp add: layout_of_def)

lemma posDict_fold:
  "fold (\<lambda>(sid, position) d. d(sid \<mapsto> position)) es m = m ++ map_of (rev es)"
  by (induction es arbitrary: m) (auto simp: map_add_def fun_eq_iff split: option.splits)

lemma posDict_of_Some: "posDict_of (Some es) = map_of (rev es)"
  by (simp add: posDict_of_def posDict_fold)

lemma posDict_of_None_iff:
  "posDict_of pj sid = None \<longleftrightarrow> (case pj of None \<Rightarrow> True | Some es \<Rightarrow> sid \<notin> fst ` set es)"
  by (cases pj) (simp_all add: posDict_of_def posDict_fold map_of_eq_None_iff)

text \<open>
  C7. For the slice at index \<open>i\<close> of the payload: when \<open>position_json\<close> is missing or
  has no entry for the slice, the position used is the default, column
  \<open>(i * 4 + 1) mod 12\<close>, row \<open>floor(i / 3) * 4\<close>, width 4, height 4, and the layout
  element built from it has \<open>x\<close> one less than the column; when \<open>position_json\<close> has
  an entry for the slice, the last such entry is used instead.
\<close>

theorem default_layout:
  assumes "i < length (slices (dashboard_data b))"
  shows "let d = dashboard_data b;
             sid = slice_id (slices d ! i);
             out = dashboard_object (dashboard_state (getInitialState e b))
         in ((case position_json d of None \<Rightarrow> True | Some es \<Rightarrow> sid \<notin> fst ` set es) \<longrightarrow>
               pos_of (posDict out) i sid =
                 \<lparr> col = (int i * 4 + 1) mod 12, row = (int i div 3) * 4, size_x = 4, size_y = 4 \<rparr> \<and>
               layout out ! i =
                 \<lparr> l_i = show_int sid, l_x = (int i * 4 + 1) mod 12 - 1, l_y = (int i div 3) * 4,
                   l_w = 4, l_minW = 2, l_h = 4 \<rparr>) \<and>
            (\<forall>es p. position_json d = Some es \<longrightarrow> map_of (rev es) sid = Some p \<longrightarrow>
               pos_of (posDict out) i sid = p \<and>
               layout out ! i =
                 \<lparr> l_i = show_int sid, l_x = col p - 1, l_y = row p,
                   l_w = size_x p, l_minW = 2, l_h = size_y p \<rparr>)"
proof -
  let ?d = "dashboard_data b"
  let ?sid = "slice_id (slices ?d ! i)"
  have none: "posDict_of (position_json ?d) ?sid = None"
    if "case position_json ?d of None \<Rightarrow> True | Some es \<Rightarrow> ?sid \<notin> fst ` set es"
    using that by (simp add: posDict_of_None_iff)
  have some: "posDict_of (position_json ?d) ?sid = Some p"
    if "position_json ?d = Some es" "map_of (rev es) ?sid = Some p" for es p
    using that by (simp add: posDict_of_Some)
  show ?thesis
    using assms none some
    by (auto simp: getInitialState_def Let_def layout_of_nth layout_entry_def pos_of_def)
qed

text \<open>On the sample payload: slice 15 at index 4 has no entry and gets column 5, row
  4, width 4, height 4; slice 12 at index 1 keeps its entry.\<close>

theorem default_layout_index_4:
  "(let out = dashboard_object (dashboard_state (getInitialState (sample_env []) sample_bootstrap))
    in pos_of (posDict out) 4 15 = \<lparr> col = 5, row = 4, size_x = 4, size_y = 4 \<rparr> \<and>
       layout out ! 4 = \<lparr> l_i = ''15'', l_x = 4, l_y = 4, l_w = 4, l_minW = 2, l_h = 4 \<rparr> \<and>
       layout out ! 1 = \<lparr> l_i = ''12'', l_x = 0, l_y = 0, l_w = 6, l_minW = 2, l_h = 2 \<rparr>)"
proof -
  have len: "4 < length (slices (dashboard_data sample_bootstrap))"
    "1 < length (slices (dashboard_data sample_bootstrap))"
    by (simp_all add: sample_bootstrap_def)
  have s15: "show_int 15 = ''15''" and s12: "show_int 12 = ''12''"
    by (simp_all add: show_int_def show_nat.simps digit_def)
  from default_layout [OF len(1), of "sample_env []"] default_layout [OF len(2), of "sample_env []"]
  show ?thesis
    by (simp add: Let_def sample_bootstrap_def s15 s12)
qed

subsection \<open>The preset filters\<close>

text \<open>\<open>parseInt(String(n), 10)\<close> is \<open>n\<close>, so a key that is the decimal text of an integer
  keeps its name.\<close>

lemma digit_is_digit: "d < 10 \<Longrightarrow> is_digit (digit d)"
proof -
  assume "d < 10"
  then have "d \<in> {0,1,2,3,4,5,6,7,8,9}" by auto
  then show ?thesis by (auto simp: is_digit_def digit_def)
qed

lemma is_digit_plain:
  "is_digit c \<Longrightarrow> c \<notin> set white_space \<and> c \<noteq> CHR ''-'' \<and> c \<noteq> CHR ''+''"
  by (auto simp: is_digit_def white_space_def)

lemma show_nat_digits: "list_all is_digit (show_nat n)"
  by (induction n rule: show_nat.induct) (subst show_nat.simps, simp add: digit_is_digit)

lemma show_nat_nonempty: "show_nat n \<noteq> []"
  by (subst show_nat.simps) simp

lemma parse_digits:
  assumes "list_all is_digit ds" "ds \<noteq> []"
  shows "dropWhile (\<lambda>c. c \<in> set white_space) ds = ds"
    and "take (Suc 0) ds \<noteq> ''-''" and "take (Suc 0) ds \<noteq> ''+''"
    and "takeWhile is_digit ds = ds"
  using assms by (cases ds; auto dest: is_digit_plain simp: takeWhile_eq_all_conv list_all_iff)+

lemma parseInt10_show_nat:
  "n \<le> 9007199254740992 \<Longrightarrow> parseInt10 (show_nat n) = Exact (int n)"
  by (simp add: parseInt10_def Let_def digits_value_show_nat show_nat_nonempty
        parse_digits [OF show_nat_digits show_nat_nonempty])

lemma parseInt10_show_int:
  assumes "\<bar>n\<bar> \<le> 9007199254740992"
  shows "parseInt10 (show_int n) = Exact n"
proof (cases "n < 0")
  case False
  with assms show ?thesis by (simp add: show_int_def parseInt10_show_nat)
next
  case True
  have "CHR ''-'' \<notin> set white_space" by (simp add: white_space_def)
  with True assms show ?thesis
    by (simp add: show_int_def parseInt10_def Let_def digits_value_show_nat show_nat_nonempty
          parse_digits(4) [OF show_nat_digits show_nat_nonempty])
qed

lemma filter_key_show_int:
  "\<bar>n\<bar> \<le> 9007199254740992 \<Longrightarrow> filter_key (show_int n) = Some (show_int n)"
  by (simp add: filter_key_def parseInt10_show_int)

lemma store_filter_keys:
  assumes "list_all (\<lambda>(k, v). \<exists>n. \<bar>n\<bar> \<le> 9007199254740992 \<and> k = show_int n) kvs"
  shows "store_filters kvs m = Some (m ++ map_of (rev kvs))"
  using assms
  by (induction kvs arbitrary: m) (auto simp: filter_key_show_int)

text \<open>The largest key that is stored under its own digits, and the first one that is
  not: \<open>parseInt\<close> rounds \<open>9007199254740993\<close> to the double \<open>9007199254740992\<close>.\<close>

lemma filter_key_limit:
  "filter_key ''9007199254740992'' = Some ''9007199254740992'' \<and>
   filter_key ''9007199254740993'' = None \<and>
   filter_key ''region'' = Some ''NaN''"
proof -
  have "filter_key (show_int 9007199254740992) = Some (show_int 9007199254740992)"
    by (rule filter_key_show_int) simp
  moreover have "show_int 9007199254740992 = ''9007199254740992''"
    by (simp add: show_int_def show_nat.simps digit_def)
  moreover have "filter_key ''9007199254740993'' = None"
    by (simp add: filter_key_def parseInt10_def white_space_def is_digit_def digits_value_def
          digit_value_def)
  moreover have "filter_key ''region'' = Some ''NaN''"
    by (simp add: filter_key_def parseInt10_def white_space_def is_digit_def)
  ultimately show ?thesis by simp
qed

lemma map_of_rev_distinct:
  "distinct (map fst xs) \<Longrightarrow> map_of (rev xs) = map_of xs"
proof (induction xs)
  case Nil
  then show ?case by simp
next
  case (Cons x xs)
  then have "fst x \<notin> fst ` set xs" by simp
  then have "map_of xs (fst x) = None" by (simp add: map_of_eq_None_iff)
  with Cons show ?case
    by (cases x) (auto simp: map_add_def fun_eq_iff split: option.splits)
qed

lemma filters_of_getInitialState:
  "filters (dashboard_state (getInitialState e b)) = initial_filters e (metadata (dashboard_data b))"
  by (simp add: getInitialState_def Let_def)

text \<open>
  C2, as amended. \<open>getInitialState\<close> never raises: it is a total function of the
  payload, because the statements outside the \<open>try\<close> block cannot throw on a payload of
  this shape and whatever the \<open>try\<close> block throws is caught and leaves \<open>filters\<close> empty
  (first conjunct). There is no fallback: when the request parameter is a non-empty
  string that \<open>JSON.parse\<close> rejects, the initial filters are empty, whatever the
  metadata default is. When the request parameter is empty and the metadata default
  parses to an object whose keys are the decimal texts of integers of magnitude up to
  \<open>2^53\<close>, the initial filters are that object's mapping. When the request parameter is
  empty and the metadata is missing or its default does not parse, the initial
  filters are empty.
\<close>

theorem preset_filters:
  "let preset = getParam e ''preselect_filters'';
       md = metadata (dashboard_data b);
       fs = filters (dashboard_state (getInitialState e b))
   in (\<forall>err. parse_filters e md = Inl err \<longrightarrow> fs = Some Map.empty) \<and>
      (preset \<noteq> [] \<and> JSON_parse e preset = None \<longrightarrow> fs = Some Map.empty) \<and>
      (\<forall>m s kvs. preset = [] \<and> md = Some m \<and> default_filters m = Some s \<and>
          JSON_parse e s = Some (JObj kvs) \<and> distinct (map fst kvs) \<and>
          list_all (\<lambda>(k, v). \<exists>n. \<bar>n\<bar> \<le> 9007199254740992 \<and> k = show_int n) kvs
          \<longrightarrow> fs = Some (map_of kvs)) \<and>
      (preset = [] \<and> md = None \<longrightarrow> fs = Some Map.empty) \<and>
      (\<forall>m. preset = [] \<and> md = Some m \<and>
          JSON_parse e (case default_filters m of None \<Rightarrow> ''undefined'' | Some s \<Rightarrow> s) = None
          \<longrightarrow> fs = Some Map.empty)"
  by (auto simp: filters_of_getInitialState initial_filters_def parse_filters_def seq_def Let_def
        store_filter_keys map_of_rev_distinct)

theorem preset_filters_example:
  "parse_filters (sample_env ''{bad'') (metadata (dashboard_data sample_bootstrap)) =
     Inl SyntaxError \<and>
   filters (dashboard_state (getInitialState (sample_env ''{bad'') sample_bootstrap)) =
     Some Map.empty \<and>
   filters (dashboard_state (getInitialState (sample_env []) sample_bootstrap)) =
     Some (map_of [(''7'', JObj [(''region'', JArr [JStr ''a''])])])"
proof -
  have k: "list_all (\<lambda>(k, v). \<exists>n. \<bar>n\<bar> \<le> 9007199254740992 \<and> k = show_int n)
             [(''7'', JObj [(''region'', JArr [JStr ''a''])])]"
    by (auto intro!: exI [of _ 7] simp: show_int_def show_nat.simps digit_def)
  have bad: "''{bad'' \<noteq> default_text"
    by (simp add: default_text_def quoted_def)
  then have 0: "parse_filters (sample_env ''{bad'') (metadata (dashboard_data sample_bootstrap)) =
     Inl SyntaxError"
    by (simp add: parse_filters_def seq_def sample_env_def sample_parse_def)
  from preset_filters [of "sample_env ''{bad''" sample_bootstrap] 0
  have 1: "filters (dashboard_state (getInitialState (sample_env ''{bad'') sample_bootstrap)) =
    Some Map.empty"
    by (simp add: Let_def)
  from preset_filters [of "sample_env []" sample_bootstrap] k
  have 2: "filters (dashboard_state (getInitialState (sample_env []) sample_bootstrap)) =
     Some (map_of [(''7'', JObj [(''region'', JArr [JStr ''a''])])])"
    by (simp add: Let_def sample_env_def sample_parse_def sample_bootstrap_def default_value_def)
  from 0 1 2 show ?thesis by simp
qed

text \<open>
  C2 as stated fails on the sample payload: the request parameter \<open>{bad\<close> does not
  parse and the metadata default does, yet the initial filters are empty, while
  without the request parameter they are those of the default, with an entry for
  slice 7.
\<close>

theorem preset_unparsable_ignores_default:
  "JSON_parse (sample_env ''{bad'') ''{bad'' = None \<and>
   JSON_parse (sample_env ''{bad'') default_text = Some default_value \<and>
   metadata (dashboard_data sample_bootstrap) = Some \<lparr> default_filters = Some default_text \<rparr> \<and>
   filters (dashboard_state (getInitialState (sample_env ''{bad'') sample_bootstrap)) =
     Some Map.empty \<and>
   filters (dashboard_state (getInitialState (sample_env []) sample_bootstrap)) =
     Some [''7'' \<mapsto> JObj [(''region'', JArr [JStr ''a''])]]"
  by (simp add: getInitialState_def Let_def initial_filters_def parse_filters_def seq_def
        sample_env_def sample_parse_def sample_bootstrap_def default_text_def quoted_def
        default_value_def filter_key_def parseInt10_def white_space_def is_digit_def
        digits_value_def digit_value_def show_int_def show_nat.simps digit_def)

end
